theory Spec2Isabelle
  imports Complex_Main "HOL-Library.Sublist" "HOL-Library.Multiset"
begin

text \<open>
  A model of the conversational core of the urban education explorer: the
  \<^verbatim>\<open>AssistantClient\<close> that drives a remote run to completion and streams its answer in
  chunks, the \<^verbatim>\<open>GraphRAGClient\<close> that ranks the corpus by cosine similarity, and the
  \<^verbatim>\<open>handleSubmit\<close> handler of the chat component that joins the two. Asynchronous code is
  modelled by passing the outside world (clock, abort signal, provider) through each
  function; a thrown value is the \<open>Inl\<close> of a result.
\<close>

section \<open>Values thrown and the remote provider\<close>

text \<open>
  A JavaScript \<^verbatim>\<open>throw\<close> carries any value. The client only looks at whether the value is
  an \<^verbatim>\<open>Error\<close> instance and, if so, at its \<^verbatim>\<open>name\<close> and \<^verbatim>\<open>message\<close>.
\<close>

datatype thrown = Err (err_name: string) (err_message: string) | NonError

text \<open>
  The fields of a provider reply that \<^verbatim>\<open>assistantClient.ts\<close> reads: \<^verbatim>\<open>status\<close> and
  \<^verbatim>\<open>last_error?.message\<close> of a run, \<^verbatim>\<open>data\<close> of a message page, and of each message its
  \<^verbatim>\<open>role\<close> and the \<^verbatim>\<open>type\<close> and \<^verbatim>\<open>text.value\<close> of its content parts.
\<close>

record message_content =
  content_type :: string
  text_value :: string

record thread_message =
  role :: string
  content :: "message_content list"

record payload =
  status :: string
  last_error :: "string option"
  data :: "thread_message list"

datatype response = Throws thrown | Returns payload

datatype endpoint = MessagesCreate string | RunsCreate | RunsRetrieve | MessagesList

datatype event = Call endpoint | Sleep nat | Yield string

text \<open>
  Everything outside the client: the clock (\<^verbatim>\<open>Date.now()\<close>, in milliseconds), the moment
  the caller's \<^verbatim>\<open>AbortSignal\<close> fires (if ever), and the provider, which answers the
  \<open>k\<close>-th call after some latency. \<open>trace\<close> records what the client did, in order.
\<close>

record world =
  now :: nat
  abortAt :: "nat option"
  server :: "nat \<Rightarrow> nat \<times> response"
  ncalls :: nat
  trace :: "event list"

definition aborted :: "world \<Rightarrow> bool" where
  "aborted w = (case abortAt w of None \<Rightarrow> False | Some t \<Rightarrow> t \<le> now w)"

definition call :: "endpoint \<Rightarrow> world \<Rightarrow> response \<times> world" where
  "call ep w =
     (snd (server w (ncalls w)),
      w\<lparr>now := now w + fst (server w (ncalls w)),
        ncalls := ncalls w + 1,
        trace := trace w @ [Call ep]\<rparr>)"

definition sleep :: "nat \<Rightarrow> world \<Rightarrow> world" where
  "sleep d w = w\<lparr>now := now w + d, trace := trace w @ [Sleep d]\<rparr>"

definition yield :: "string \<Rightarrow> world \<Rightarrow> world" where
  "yield s w = w\<lparr>trace := trace w @ [Yield s]\<rparr>"

definition script :: "(nat \<times> response) list \<Rightarrow> nat \<times> response \<Rightarrow> nat \<Rightarrow> nat \<times> response" where
  "script rs d k = (if k < length rs then rs ! k else d)"

definition fragments :: "event list \<Rightarrow> string list" where
  "fragments es = concat (map (\<lambda>e. case e of Yield s \<Rightarrow> [s] | _ \<Rightarrow> []) es)"

definition calls :: "event list \<Rightarrow> endpoint list" where
  "calls es = concat (map (\<lambda>e. case e of Call ep \<Rightarrow> [ep] | _ \<Rightarrow> []) es)"

section \<open>String helpers of the JavaScript runtime\<close>

text \<open>\<^verbatim>\<open>s.split(sep)\<close> for a one-character separator: never empty, keeps empty pieces.\<close>

fun split_on :: "'a \<Rightarrow> 'a list \<Rightarrow> 'a list list" where
  "split_on sep [] = [[]]"
| "split_on sep (x # xs) =
     (if x = sep then [] # split_on sep xs
      else (case split_on sep xs of
              [] \<Rightarrow> [[x]]
            | piece # pieces \<Rightarrow> (x # piece) # pieces))"

text \<open>\<^verbatim>\<open>words.join(sep)\<close>.\<close>

fun join :: "'a list \<Rightarrow> 'a list list \<Rightarrow> 'a list" where
  "join sep [] = []"
| "join sep [piece] = piece"
| "join sep (piece # pieces) = piece @ sep @ join sep pieces"

text \<open>\<^verbatim>\<open>xs.slice(i, j)\<close> for non-negative indices.\<close>

definition slice :: "nat \<Rightarrow> nat \<Rightarrow> 'a list \<Rightarrow> 'a list" where
  "slice i j xs = take (j - i) (drop i xs)"

section \<open>AssistantClient\<close>

record client =
  thread :: "string option"
  retryCount :: nat

definition maxRetries :: nat where "maxRetries = 3"
definition baseDelay :: nat where "baseDelay = 2000"
definition timeout :: nat where "timeout = 30000"
definition chunkSize :: nat where "chunkSize = 10"

definition exponentialBackoff :: "client \<Rightarrow> world \<Rightarrow> client \<times> world" where
  "exponentialBackoff c w =
     (c\<lparr>retryCount := retryCount c + 1\<rparr>, sleep (baseDelay * 2 ^ retryCount c) w)"

definition resetRetryCount :: "client \<Rightarrow> client" where
  "resetRetryCount c = c\<lparr>retryCount := 0\<rparr>"

text \<open>\<^verbatim>\<open>runStatus.last_error?.message || 'Run failed'\<close>: an empty message is falsy too.\<close>

definition failureMessage :: "payload \<Rightarrow> string" where
  "failureMessage p =
     (case last_error p of
        None \<Rightarrow> ''Run failed''
      | Some m \<Rightarrow> if m = [] then ''Run failed'' else m)"

text \<open>The \<^verbatim>\<open>while (true)\<close> loop of \<^verbatim>\<open>waitForRunCompletion\<close>, with \<open>startTime\<close> fixed.\<close>

function pollLoop :: "nat \<Rightarrow> world \<Rightarrow> (thrown + unit) \<times> world" where
  "pollLoop startTime w =
     (if aborted w then (Inl (Err ''Error'' ''Request cancelled''), w)
      else if now w - startTime > timeout then (Inl (Err ''Error'' ''Request timed out''), w)
      else (case fst (call RunsRetrieve w) of
              Throws e \<Rightarrow> (Inl e, snd (call RunsRetrieve w))
            | Returns runStatus \<Rightarrow>
                if status runStatus = ''completed'' then (Inr (), snd (call RunsRetrieve w))
                else if status runStatus = ''failed'' then
                  (Inl (Err ''Error'' (failureMessage runStatus)), snd (call RunsRetrieve w))
                else if status runStatus = ''cancelled'' then
                  (Inl (Err ''Error'' ''Run was cancelled''), snd (call RunsRetrieve w))
                else if status runStatus = ''expired'' then
                  (Inl (Err ''Error'' ''Run expired''), snd (call RunsRetrieve w))
                else if status runStatus = ''requires_action'' then
                  (Inl (Err ''Error'' ''Run requires action''), snd (call RunsRetrieve w))
                else pollLoop startTime (sleep 1000 (snd (call RunsRetrieve w)))))"
  by pat_completeness auto
termination
  by (relation "measure (\<lambda>(startTime, w). startTime + timeout + 1 - now w)")
     (auto simp: call_def sleep_def)

definition waitForRunCompletion :: "world \<Rightarrow> (thrown + unit) \<times> world" where
  "waitForRunCompletion w = pollLoop (now w) w"

text \<open>The \<^verbatim>\<open>for\<close> loop that yields the chunks, each followed by the 50ms pause.\<close>

function chunkLoop :: "nat \<Rightarrow> string list \<Rightarrow> world \<Rightarrow> world" where
  "chunkLoop i words w =
     (if i < length words
      then chunkLoop (i + chunkSize) words
             (sleep 50 (yield (join '' '' (slice i (i + chunkSize) words) @ '' '') w))
      else w)"
  by pat_completeness auto
termination
  by (relation "measure (\<lambda>(i, words, w). length words - i)") (auto simp: chunkSize_def)

definition emitChunks :: "string \<Rightarrow> world \<Rightarrow> world" where
  "emitChunks text w = chunkLoop 0 (split_on CHR '' '' text) w"

text \<open>
  The body of the \<^verbatim>\<open>try\<close> block of \<^verbatim>\<open>streamMessage\<close>. Reading \<^verbatim>\<open>.type\<close> of a missing
  first content part is a \<^verbatim>\<open>TypeError\<close> of the runtime.
\<close>

definition tryBody :: "string \<Rightarrow> world \<Rightarrow> (thrown + unit) \<times> world" where
  "tryBody content0 w0 =
     (case call (MessagesCreate content0) w0 of
        (Throws e, w1) \<Rightarrow> (Inl e, w1)
      | (Returns _, w1) \<Rightarrow>
     (case call RunsCreate w1 of
        (Throws e, w2) \<Rightarrow> (Inl e, w2)
      | (Returns _, w2) \<Rightarrow>
     (case waitForRunCompletion w2 of
        (Inl e, w3) \<Rightarrow> (Inl e, w3)
      | (Inr _, w3) \<Rightarrow>
     (case call MessagesList w3 of
        (Throws e, w4) \<Rightarrow> (Inl e, w4)
      | (Returns messages, w4) \<Rightarrow>
     (case data messages of
        [] \<Rightarrow> (Inl (Err ''Error'' ''No assistant response found''), w4)
      | lastMessage # _ \<Rightarrow>
          if role lastMessage \<noteq> ''assistant''
          then (Inl (Err ''Error'' ''No assistant response found''), w4)
          else (case content lastMessage of
                  [] \<Rightarrow> (Inl (Err ''TypeError''
                               ''Cannot read properties of undefined (reading 'type')''), w4)
                | messageContent # _ \<Rightarrow>
                    if content_type messageContent \<noteq> ''text''
                    then (Inl (Err ''Error'' ''Unexpected message content type''), w4)
                    else (Inr (), emitChunks (text_value messageContent) w4)))))))"

text \<open>
  \<^verbatim>\<open>streamMessage\<close>, consumed to its end. After \<^verbatim>\<open>yield*\<close> of the retry returns, control
  leaves the \<^verbatim>\<open>if (error instanceof Error)\<close> block and reaches the final \<^verbatim>\<open>throw\<close>.
\<close>

function streamMessage :: "client \<Rightarrow> string \<Rightarrow> world \<Rightarrow> (thrown + unit) \<times> client \<times> world" where
  "streamMessage c content0 w =
     (if thread c = None then (Inl (Err ''Error'' ''Thread not initialized''), c, w)
      else (case tryBody content0 w of
              (Inr _, w') \<Rightarrow> (Inr (), c, w')
            | (Inl NonError, w') \<Rightarrow> (Inl (Err ''Error'' ''An unexpected error occurred''), c, w')
            | (Inl (Err n m), w') \<Rightarrow>
                if n = ''AbortError'' then (Inl (Err ''Error'' ''Request cancelled''), c, w')
                else if retryCount c < maxRetries then
                  (case streamMessage (fst (exponentialBackoff c w')) content0
                          (snd (exponentialBackoff c w')) of
                     (Inl e, c', w'') \<Rightarrow> (Inl e, c', w'')
                   | (Inr _, c', w'') \<Rightarrow>
                       (Inl (Err ''Error'' ''An unexpected error occurred''), c', w''))
                else (Inl (Err n m), resetRetryCount c, w')))"
  by pat_completeness auto
termination
  by (relation "measure (\<lambda>(c, content0, w). maxRetries - retryCount c)")
     (auto simp: exponentialBackoff_def)

declare pollLoop.simps [simp del]
declare chunkLoop.simps [simp del]
declare streamMessage.simps [simp del]

section \<open>GraphRAGClient\<close>

text \<open>
  \<^verbatim>\<open>nodeEmbeddings\<close> is a JavaScript object; it is kept as the list of its entries in the
  order \<^verbatim>\<open>Object.entries\<close> enumerates them (for keys that are not array indices, the order
  in which the JSON artifact lists them). A parsed JSON number is a finite double, hence a
  real number.
\<close>

record graph_client =
  nodeEmbeddings :: "(string \<times> real list) list"
  nodeNames :: "string list"
  initialized :: bool

text \<open>
  What one \<^verbatim>\<open>fetch\<close> gives: a rejection, or a response with its \<^verbatim>\<open>ok\<close> flag, its
  \<^verbatim>\<open>statusText\<close> and the outcome of reading its body (\<^verbatim>\<open>json()\<close> or \<^verbatim>\<open>text()\<close>).
\<close>

datatype 'a fetched = FetchThrows thrown | FetchResponse bool string "thrown + 'a"

definition loadData ::
  "graph_client \<Rightarrow> (string \<times> real list) list fetched \<Rightarrow> string fetched
     \<Rightarrow> (thrown + unit) \<times> graph_client" where
  "loadData g nodeEmbeddingsResponse nodeNamesResponse =
     (case nodeEmbeddingsResponse of
        FetchThrows e \<Rightarrow> (Inl e, g)
      | FetchResponse ok1 statusText1 body1 \<Rightarrow>
          if \<not> ok1
          then (Inl (Err ''Error'' (''Failed to load node embeddings: '' @ statusText1)), g)
          else (case body1 of
                  Inl e \<Rightarrow> (Inl e, g)
                | Inr embeddings \<Rightarrow>
                    (case nodeNamesResponse of
                       FetchThrows e \<Rightarrow> (Inl e, g\<lparr>nodeEmbeddings := embeddings\<rparr>)
                     | FetchResponse ok2 statusText2 body2 \<Rightarrow>
                         if \<not> ok2
                         then (Inl (Err ''Error'' (''Failed to load node names: '' @ statusText2)),
                               g\<lparr>nodeEmbeddings := embeddings\<rparr>)
                         else (case body2 of
                                 Inl e \<Rightarrow> (Inl e, g\<lparr>nodeEmbeddings := embeddings\<rparr>)
                               | Inr nodeNamesText \<Rightarrow>
                                   (Inr (),
                                    g\<lparr>nodeEmbeddings := embeddings,
                                      nodeNames := filter (\<lambda>s. s \<noteq> [])
                                                     (split_on (CHR 0x0A) nodeNamesText),
                                      initialized := True\<rparr>)))))"

definition ensureInitialized ::
  "graph_client \<Rightarrow> (string \<times> real list) list fetched \<Rightarrow> string fetched
     \<Rightarrow> (thrown + unit) \<times> graph_client" where
  "ensureInitialized g nodeEmbeddingsResponse nodeNamesResponse =
     (if \<not> initialized g then loadData g nodeEmbeddingsResponse nodeNamesResponse
      else (Inr (), g))"

text \<open>
  \<^verbatim>\<open>cosineSimilarity\<close> computes in IEEE double arithmetic, which is not modelled here. What
  it returns for a pair of vectors is taken as given: it is the parameter
  \<open>cosineSimilarity\<close> of the definitions below. A similarity is \<open>None\<close> when it is
  \<^verbatim>\<open>NaN\<close> and \<open>Some s\<close> otherwise, with \<open>s\<close> in any linearly ordered type (the doubles
  other than \<^verbatim>\<open>NaN\<close>, ordered by value). \<open>js_ge\<close> is JavaScript's \<^verbatim>\<open>>=\<close> on such
  numbers: false as soon as one side is \<^verbatim>\<open>NaN\<close>.
\<close>

definition js_ge :: "'s::linorder option \<Rightarrow> 's option \<Rightarrow> bool" where
  "js_ge x y = (case (x, y) of (Some a, Some b) \<Rightarrow> b \<le> a | _ \<Rightarrow> False)"

text \<open>The local \<^verbatim>\<open>similarities\<close> of \<^verbatim>\<open>queryFaissIndex\<close>.\<close>

definition similarities ::
  "(real list \<Rightarrow> real list \<Rightarrow> 's option) \<Rightarrow> graph_client \<Rightarrow> real list
     \<Rightarrow> (string \<times> 's option) list" where
  "similarities cosineSimilarity g queryEmbedding =
     map (\<lambda>(name, embedding). (name, cosineSimilarity queryEmbedding embedding))
       (nodeEmbeddings g)"

text \<open>
  \<^verbatim>\<open>sort((a, b) => b.similarity - a.similarity)\<close>. When no similarity is \<^verbatim>\<open>NaN\<close> the
  difference is negative, zero or positive exactly as \<open>b\<close> is below, equal to or above
  \<open>a\<close>, and \<^verbatim>\<open>Array.prototype.sort\<close>, which is stable, returns the stable sort by
  descending similarity. When a similarity is \<^verbatim>\<open>NaN\<close> the comparator is inconsistent and
  the language leaves the resulting order to the engine: it is the parameter
  \<open>engineOrder\<close>, of which the language only says that it permutes the array.
\<close>

definition sortBySimilarity ::
  "(('a \<times> 's option) list \<Rightarrow> ('a \<times> 's option) list) \<Rightarrow> ('a \<times> 's::linorder option) list
     \<Rightarrow> ('a \<times> 's option) list" where
  "sortBySimilarity engineOrder xs =
     (if None \<in> snd ` set xs then engineOrder xs
      else rev (sort_key (\<lambda>e. the (snd e)) (rev xs)))"

definition queryFaissIndex ::
  "(real list \<Rightarrow> real list \<Rightarrow> 's option)
     \<Rightarrow> ((string \<times> 's option) list \<Rightarrow> (string \<times> 's option) list)
     \<Rightarrow> graph_client \<Rightarrow> real list \<Rightarrow> nat \<Rightarrow> (string \<times> 's::linorder option) list" where
  "queryFaissIndex cosineSimilarity engineOrder g queryEmbedding k =
     slice 0 k (sortBySimilarity engineOrder (similarities cosineSimilarity g queryEmbedding))"

text \<open>\<^verbatim>\<open>s.includes(sub)\<close> and \<^verbatim>\<open>s.replace(pat, rep)\<close> (a string pattern: first occurrence only).\<close>

fun includes_str :: "'a list \<Rightarrow> 'a list \<Rightarrow> bool" where
  "includes_str [] sub = (sub = [])"
| "includes_str (x # xs) sub = (take (length sub) (x # xs) = sub \<or> includes_str xs sub)"

fun replace :: "'a list \<Rightarrow> 'a list \<Rightarrow> 'a list \<Rightarrow> 'a list" where
  "replace [] pat rep = (if pat = [] then rep else [])"
| "replace (x # xs) pat rep =
     (if take (length pat) (x # xs) = pat then rep @ drop (length pat) (x # xs)
      else x # replace xs pat rep)"

record relationship =
  rel_type :: string
  target :: string

definition fetchRelationships :: "string \<Rightarrow> relationship list" where
  "fetchRelationships nodeName =
     [\<lparr>rel_type = ''EXISTS_IN'', target = ''directory''\<rparr>,
      \<lparr>rel_type = ''PROVIDED_BY'', target = ''ipeds''\<rparr>]
     @ (if includes_str nodeName ''_id''
        then [\<lparr>rel_type = ''IDENTIFIES'', target = replace nodeName ''_id'' []\<rparr>]
        else [])"

section \<open>Chat: one submitted turn\<close>

text \<open>
  Of the component's state only \<^verbatim>\<open>messages\<close> is modelled, and of a message every field
  but its \<^verbatim>\<open>timestamp\<close>, which nothing reads back. A message id is the number whose decimal
  form the component stores.
\<close>

datatype msg_status = Typing | Sending | Delivered | Failed

record 'n message =
  msg_id :: nat
  msg_content :: string
  isBot :: bool
  msg_status :: msg_status
  knowledgeGraph :: "'n list option"

definition markDelivered :: "nat \<Rightarrow> 'n message list \<Rightarrow> 'n message list" where
  "markDelivered uid prev =
     map (\<lambda>msg. if msg_id msg = uid then msg\<lparr>msg_status := Delivered\<rparr> else msg) prev"

definition appendChunk :: "nat \<Rightarrow> string \<Rightarrow> 'n message list \<Rightarrow> 'n message list" where
  "appendChunk bid chunk prev =
     map (\<lambda>msg. if msg_id msg = bid then msg\<lparr>msg_content := msg_content msg @ chunk\<rparr> else msg)
       prev"

definition attachKnowledgeGraph :: "nat \<Rightarrow> 'n list \<Rightarrow> 'n message list \<Rightarrow> 'n message list" where
  "attachKnowledgeGraph bid relevantNodes prev =
     map (\<lambda>msg. if msg_id msg = bid
                then msg\<lparr>msg_status := Delivered, knowledgeGraph := Some relevantNodes\<rparr>
                else msg) prev"

definition removeMessage :: "nat \<Rightarrow> 'n message list \<Rightarrow> 'n message list" where
  "removeMessage bid prev = filter (\<lambda>msg. msg_id msg \<noteq> bid) prev"

definition markFailed :: "nat \<Rightarrow> 'n message list \<Rightarrow> 'n message list" where
  "markFailed bid prev =
     map (\<lambda>msg. if msg_id msg = bid
                then msg\<lparr>msg_content := ''Failed to generate response'', msg_status := Failed\<rparr>
                else msg) prev"

text \<open>The \<^verbatim>\<open>for await\<close> loop: the state of \<^verbatim>\<open>messages\<close> after each chunk.\<close>

fun consume :: "nat \<Rightarrow> string list \<Rightarrow> 'n message list \<Rightarrow> 'n message list list" where
  "consume bid [] prev = []"
| "consume bid (chunk # chunks) prev =
     appendChunk bid chunk prev # consume bid chunks (appendChunk bid chunk prev)"

text \<open>\<^verbatim>\<open>err instanceof Error && err.message === 'Request cancelled'\<close>.\<close>

definition isCancellation :: "thrown \<Rightarrow> bool" where
  "isCancellation err = (case err of Err n m \<Rightarrow> m = ''Request cancelled'' | NonError \<Rightarrow> False)"

text \<open>
  \<^verbatim>\<open>handleSubmit\<close> once its guard has passed, as the list of the states \<^verbatim>\<open>setMessages\<close>
  produces, in order. \<open>text\<close> is \<^verbatim>\<open>input.trim()\<close>, \<open>t1\<close> and \<open>t2\<close> are the two readings of
  \<^verbatim>\<open>Date.now()\<close>; the stream delivers \<open>chunks\<close> and then ends or throws \<open>streamError\<close>;
  \<open>retrieval\<close> is how \<^verbatim>\<open>knowledgeGraphPromise\<close> settles.
\<close>

definition handleSubmit ::
  "'n message list \<Rightarrow> string \<Rightarrow> nat \<Rightarrow> nat \<Rightarrow> string list \<Rightarrow> thrown option
     \<Rightarrow> thrown + 'n list \<Rightarrow> 'n message list list" where
  "handleSubmit prev text t1 t2 chunks streamError retrieval =
     (let userMessage = \<lparr>msg_id = t1, msg_content = text, isBot = False,
                          msg_status = Sending, knowledgeGraph = None\<rparr>;
          botMessage = \<lparr>msg_id = t2 + 1, msg_content = [], isBot = True,
                         msg_status = Typing, knowledgeGraph = None\<rparr>;
          appended = prev @ [userMessage, botMessage];
          delivered = markDelivered (msg_id userMessage) appended;
          streamed = consume (msg_id botMessage) chunks delivered;
          current = last (delivered # streamed)
      in [appended, delivered] @ streamed @
         [case (case streamError of Some e \<Rightarrow> Inl e | None \<Rightarrow> retrieval) of
            Inr relevantNodes \<Rightarrow> attachKnowledgeGraph (msg_id botMessage) relevantNodes current
          | Inl err \<Rightarrow>
              if isCancellation err
              then removeMessage (msg_id botMessage) current
              else markFailed (msg_id botMessage) current])"

section \<open>Scenarios\<close>

text \<open>Concrete clients, provider replies and worlds on which the results below are run.\<close>

definition runInState :: "string \<Rightarrow> payload" where
  "runInState st = \<lparr>status = st, last_error = None, data = []\<rparr>"

definition reply :: "string \<Rightarrow> nat \<times> response" where
  "reply st = (100, Returns (runInState st))"

definition assistantSays :: "string \<Rightarrow> nat \<times> response" where
  "assistantSays t =
     (100, Returns \<lparr>status = [], last_error = None,
                    data = [\<lparr>role = ''assistant'',
                             content = [\<lparr>content_type = ''text'', text_value = t\<rparr>]\<rparr>]\<rparr>)"

definition connectionError :: "nat \<times> response" where
  "connectionError = (100, Throws (Err ''Error'' ''Connection error.''))"

definition abortRejected :: "nat \<times> response" where
  "abortRejected = (0, Throws (Err ''AbortError'' ''Request was aborted.''))"

definition freshClient :: client where
  "freshClient = \<lparr>thread = Some ''thread_1'', retryCount = 0\<rparr>"

definition startWorld :: "nat option \<Rightarrow> (nat \<Rightarrow> nat \<times> response) \<Rightarrow> world" where
  "startWorld a srv = \<lparr>now = 0, abortAt = a, server = srv, ncalls = 0, trace = []\<rparr>"

text \<open>
  The turn is appended, the run is created and first observed \<^verbatim>\<open>in_progress\<close>; the caller
  aborts 500ms in, during the pause before the second poll. Every call made after that,
  with the aborted signal, is rejected with an \<^verbatim>\<open>AbortError\<close>.
\<close>

definition cancelledWhilePolling :: world where
  "cancelledWhilePolling =
     startWorld (Some 500)
       (script [reply ''ok'', reply ''queued'', reply ''in_progress''] abortRejected)"

text \<open>The same abort, with later calls rejected by an error whose name is not \<^verbatim>\<open>AbortError\<close>.\<close>

definition abortRejectedPlain :: "nat \<times> response" where
  "abortRejectedPlain = (0, Throws (Err ''Error'' ''Request was aborted.''))"

definition cancelledPlainRejection :: world where
  "cancelledPlainRejection =
     startWorld (Some 500)
       (script [reply ''ok'', reply ''queued'', reply ''in_progress''] abortRejectedPlain)"

text \<open>Two attempts fail on their first call; the third runs to completion.\<close>

definition twoFailuresThenSuccess :: world where
  "twoFailuresThenSuccess =
     startWorld None
       (script [connectionError, connectionError, reply ''ok'', reply ''queued'',
                reply ''completed'', assistantSays ''hello world''] connectionError)"

text \<open>Every call fails.\<close>

definition providerDown :: world where
  "providerDown = startWorld None (script [] connectionError)"

text \<open>A poll at time \<open>t\<close> that observes state \<open>st\<close>, before and after the status call.\<close>

definition pollingWorld :: "nat \<Rightarrow> string \<Rightarrow> world" where
  "pollingWorld t st =
     \<lparr>now = t, abortAt = None, server = script [reply st] connectionError, ncalls = 0,
       trace = []\<rparr>"

definition polledWorld :: "nat \<Rightarrow> string \<Rightarrow> world" where
  "polledWorld t st =
     \<lparr>now = t + 100, abortAt = None, server = script [reply st] connectionError, ncalls = 1,
       trace = [Call RunsRetrieve]\<rparr>"

text \<open>
  The two artifacts of the retrieval corpus: three embeddings in the order
  \<^verbatim>\<open>admit_rate\<close>, \<^verbatim>\<open>yield_rate\<close>, \<^verbatim>\<open>unitid\<close>, the first and the last with the same
  vector, and a names file that lists them as \<^verbatim>\<open>unitid\<close>, \<^verbatim>\<open>yield_rate\<close>, \<^verbatim>\<open>admit_rate\<close>.
\<close>

definition emptyGraph :: graph_client where
  "emptyGraph = \<lparr>nodeEmbeddings = [], nodeNames = [], initialized = False\<rparr>"

definition okResponse :: "'a \<Rightarrow> 'a fetched" where
  "okResponse b = FetchResponse True ''OK'' (Inr b)"

definition corpusEmbeddings :: "(string \<times> real list) list" where
  "corpusEmbeddings = [(''admit_rate'', [1, 0]), (''yield_rate'', [0, 1]), (''unitid'', [1, 0])]"

definition corpusNamesText :: string where
  "corpusNamesText =
     ''unitid'' @ [CHR 0x0A] @ ''yield_rate'' @ [CHR 0x0A] @ ''admit_rate'' @ [CHR 0x0A]"

definition corpusGraph :: graph_client where
  "corpusGraph =
     \<lparr>nodeEmbeddings = corpusEmbeddings,
       nodeNames = [''unitid'', ''yield_rate'', ''admit_rate''],
       initialized = True\<rparr>"

text \<open>Artifacts that disagree: different key sets, and vectors of different dimensions.\<close>

definition mismatchedEmbeddings :: "(string \<times> real list) list" where
  "mismatchedEmbeddings = [(''admit_rate'', [1, 0]), (''unitid'', [1])]"

definition mismatchedNamesText :: string where
  "mismatchedNamesText = ''yield_rate'' @ [CHR 0x0A] @ ''admit_rate'' @ [CHR 0x0A]"

text \<open>
  What \<^verbatim>\<open>cosineSimilarity\<close> returns in double arithmetic for the query \<^verbatim>\<open>[1, 0]\<close> against
  the vectors used below; every step is exact. Against \<^verbatim>\<open>[1, 0]\<close>: dot product 1, both
  norms \<^verbatim>\<open>sqrt(1) = 1\<close>, result \<^verbatim>\<open>1 / (1 * 1) = 1\<close>. Against \<^verbatim>\<open>[0, 1]\<close>: dot product 0,
  result \<^verbatim>\<open>0 / (1 * 1) = 0\<close>. Against \<^verbatim>\<open>[0, 0]\<close>: dot product 0, second norm 0, result
  \<^verbatim>\<open>0 / (1 * 0)\<close>, which is \<^verbatim>\<open>NaN\<close>. No other pair is looked up.
\<close>

definition corpusCosine :: "real list \<Rightarrow> real list \<Rightarrow> real option" where
  "corpusCosine q v =
     (if q = [1, 0] \<and> v = [1, 0] then Some 1
      else if q = [1, 0] \<and> v = [0, 1] then Some 0
      else None)"

text \<open>An engine whose sort leaves the array as it is when the comparator is inconsistent.\<close>

definition keepOrder :: "'a list \<Rightarrow> 'a list" where
  "keepOrder xs = xs"

text \<open>An index that holds a zero vector.\<close>

definition zeroVectorGraph :: graph_client where
  "zeroVectorGraph =
     \<lparr>nodeEmbeddings = [(''admit_rate'', [0, 0]), (''unitid'', [1, 0])],
       nodeNames = [''admit_rate'', ''unitid''],
       initialized = True\<rparr>"

text \<open>A single status call that takes 40 seconds and then reports \<^verbatim>\<open>completed\<close>.\<close>

definition slowStatusWorld :: world where
  "slowStatusWorld =
     startWorld None (script [(40000, Returns (runInState ''completed''))] connectionError)"

text \<open>A check of the poll loop at which the signal is aborted and the deadline has passed.\<close>

definition lateAbortedWorld :: world where
  "lateAbortedWorld =
     \<lparr>now = 30001, abortAt = Some 30000, server = script [] (reply ''completed''), ncalls = 0,
       trace = []\<rparr>"

section \<open>Properties of AssistantClient\<close>

lemmas scenario_defs = runInState_def reply_def assistantSays_def connectionError_def
  abortRejected_def abortRejectedPlain_def freshClient_def startWorld_def script_def

lemmas client_defs = call_def sleep_def yield_def aborted_def exponentialBackoff_def
  resetRetryCount_def maxRetries_def baseDelay_def timeout_def chunkSize_def slice_def
  waitForRunCompletion_def tryBody_def emitChunks_def failureMessage_def

subsection \<open>One level of \<^verbatim>\<open>streamMessage\<close>\<close>

lemma streamMessage_ok:
  "thread c \<noteq> None \<Longrightarrow> tryBody content0 w = (Inr u, w') \<Longrightarrow>
   streamMessage c content0 w = (Inr (), c, w')"
  by (subst streamMessage.simps) auto

lemma streamMessage_abort:
  "thread c \<noteq> None \<Longrightarrow> tryBody content0 w = (Inl (Err ''AbortError'' m), w') \<Longrightarrow>
   streamMessage c content0 w = (Inl (Err ''Error'' ''Request cancelled''), c, w')"
  by (subst streamMessage.simps) auto

lemma streamMessage_retry:
  "thread c \<noteq> None \<Longrightarrow> tryBody content0 w = (Inl (Err n m), w') \<Longrightarrow> n \<noteq> ''AbortError'' \<Longrightarrow>
   retryCount c < maxRetries \<Longrightarrow>
   streamMessage c content0 w =
     (case streamMessage (c\<lparr>retryCount := retryCount c + 1\<rparr>) content0
             (sleep (baseDelay * 2 ^ retryCount c) w') of
        (Inl e, c', w'') \<Rightarrow> (Inl e, c', w'')
      | (Inr _, c', w'') \<Rightarrow> (Inl (Err ''Error'' ''An unexpected error occurred''), c', w''))"
  by (subst streamMessage.simps) (auto simp: exponentialBackoff_def)

lemma streamMessage_exhausted:
  "thread c \<noteq> None \<Longrightarrow> tryBody content0 w = (Inl (Err n m), w') \<Longrightarrow> n \<noteq> ''AbortError'' \<Longrightarrow>
   \<not> retryCount c < maxRetries \<Longrightarrow>
   streamMessage c content0 w = (Inl (Err n m), c\<lparr>retryCount := 0\<rparr>, w')"
  by (subst streamMessage.simps) (auto simp: resetRetryCount_def)

subsection \<open>Cancellation during the poll loop\<close>

text \<open>
  When a check of the poll loop finds the signal aborted, \<^verbatim>\<open>waitForRunCompletion\<close> and
  with it the \<^verbatim>\<open>try\<close> block end with a plain \<^verbatim>\<open>Error\<close> whose message is
  \<^verbatim>\<open>Request cancelled\<close>; its name is not \<^verbatim>\<open>AbortError\<close>.
\<close>

lemma pollLoop_cancelled:
  "aborted w \<Longrightarrow> pollLoop startTime w = (Inl (Err ''Error'' ''Request cancelled''), w)"
  by (subst pollLoop.simps) simp

lemma tryBody_cancelled_in_poll:
  assumes "call (MessagesCreate content0) w0 = (Returns p1, w1)"
    and "call RunsCreate w1 = (Returns p2, w2)"
    and "waitForRunCompletion w2 = (Inl (Err ''Error'' ''Request cancelled''), w3)"
  shows "tryBody content0 w0 = (Inl (Err ''Error'' ''Request cancelled''), w3)"
  using assms by (simp add: tryBody_def)

text \<open>So, below the retry ceiling, the catch block backs off and starts the turn again.\<close>

lemma streamMessage_poll_cancellation_retried:
  assumes "thread c \<noteq> None" and "retryCount c < maxRetries"
    and "call (MessagesCreate content0) w0 = (Returns p1, w1)"
    and "call RunsCreate w1 = (Returns p2, w2)"
    and "waitForRunCompletion w2 = (Inl (Err ''Error'' ''Request cancelled''), w3)"
  shows "streamMessage c content0 w0 =
           (case streamMessage (c\<lparr>retryCount := retryCount c + 1\<rparr>) content0
                   (sleep (baseDelay * 2 ^ retryCount c) w3) of
              (Inl e, c', w'') \<Rightarrow> (Inl e, c', w'')
            | (Inr _, c', w'') \<Rightarrow>
                (Inl (Err ''Error'' ''An unexpected error occurred''), c', w''))"
  using streamMessage_retry [OF assms(1) tryBody_cancelled_in_poll [OF assms(3-5)] _ assms(2)]
  by simp

text \<open>
  C1 (the code departs from the claim). The claim: a call whose signal becomes aborted
  during the poll loop fails with the cancellation error at once, without backoff, without
  another network call and without touching the retry counter. On
  \<open>cancelledWhilePolling\<close> the second check of the poll loop finds the signal aborted.
  The call does end with \<^verbatim>\<open>Request cancelled\<close>, but only after the 2000ms backoff and
  a second \<^verbatim>\<open>messages.create\<close> call, and it leaves the retry counter at 1.
\<close>

theorem streamMessage_poll_cancellation_backs_off:
  "streamMessage freshClient ''hi'' cancelledWhilePolling =
     (Inl (Err ''Error'' ''Request cancelled''), freshClient\<lparr>retryCount := 1\<rparr>,
      \<lparr>now = 3300, abortAt = Some 500,
        server = script [reply ''ok'', reply ''queued'', reply ''in_progress''] abortRejected,
        ncalls = 4,
        trace = [Call (MessagesCreate ''hi''), Call RunsCreate, Call RunsRetrieve, Sleep 1000,
                 Sleep 2000, Call (MessagesCreate ''hi'')]\<rparr>)"
  by (simp add: streamMessage.simps pollLoop.simps cancelledWhilePolling_def
        scenario_defs client_defs)

text \<open>
  When the calls made with the aborted signal are rejected by an error of another name, the
  cancelled turn is attempted four times, with backoffs of 2000, 4000 and 8000ms, and the
  caller receives that rejection instead of \<^verbatim>\<open>Request cancelled\<close>.
\<close>

lemma streamMessage_poll_cancellation_four_attempts:
  "fst (streamMessage freshClient ''hi'' cancelledPlainRejection) =
     Inl (Err ''Error'' ''Request was aborted.'') \<and>
   trace (snd (snd (streamMessage freshClient ''hi'' cancelledPlainRejection))) =
     [Call (MessagesCreate ''hi''), Call RunsCreate, Call RunsRetrieve, Sleep 1000,
      Sleep 2000, Call (MessagesCreate ''hi''),
      Sleep 4000, Call (MessagesCreate ''hi''),
      Sleep 8000, Call (MessagesCreate ''hi'')]"
  by (simp add: streamMessage.simps pollLoop.simps cancelledPlainRejection_def
        scenario_defs client_defs)

subsection \<open>Retry that succeeds\<close>

text \<open>
  C2 (the code departs from the claim). The claim: after two failed attempts and a third
  that succeeds, the call completes successfully and the retry counter is 0. On
  \<open>twoFailuresThenSuccess\<close> there are three attempts with backoffs of 2000 and 4000ms and
  the third attempt's fragment is yielded, but the call then throws
  \<^verbatim>\<open>An unexpected error occurred\<close> and the retry counter is left at 2.
\<close>

theorem streamMessage_successful_retry_throws:
  "streamMessage freshClient ''hi'' twoFailuresThenSuccess =
     (Inl (Err ''Error'' ''An unexpected error occurred''), freshClient\<lparr>retryCount := 2\<rparr>,
      \<lparr>now = 6650, abortAt = None, server = server twoFailuresThenSuccess, ncalls = 6,
        trace = [Call (MessagesCreate ''hi''), Sleep 2000,
                 Call (MessagesCreate ''hi''), Sleep 4000,
                 Call (MessagesCreate ''hi''), Call RunsCreate, Call RunsRetrieve,
                 Call MessagesList, Yield ''hello world '', Sleep 50]\<rparr>)"
  by (simp add: streamMessage.simps pollLoop.simps chunkLoop.simps twoFailuresThenSuccess_def
        scenario_defs client_defs)

text \<open>
  The same holds for every world: a retry that ends normally always surfaces as
  \<^verbatim>\<open>An unexpected error occurred\<close>, with the counter at the number of retries made.
\<close>

lemma streamMessage_two_failures_then_success:
  assumes "thread c \<noteq> None" and "retryCount c = 0"
    and "tryBody content0 w0 = (Inl (Err n1 m1), w1)" and "n1 \<noteq> ''AbortError''"
    and "tryBody content0 (sleep 2000 w1) = (Inl (Err n2 m2), w2)" and "n2 \<noteq> ''AbortError''"
    and "tryBody content0 (sleep 4000 w2) = (Inr u, w3)"
  shows "streamMessage c content0 w0 =
           (Inl (Err ''Error'' ''An unexpected error occurred''), c\<lparr>retryCount := 2\<rparr>, w3)"
proof -
  have a3: "streamMessage (c\<lparr>retryCount := 2\<rparr>) content0 (sleep 4000 w2)
              = (Inr (), c\<lparr>retryCount := 2\<rparr>, w3)"
    using streamMessage_ok [of "c\<lparr>retryCount := 2\<rparr>" content0 "sleep 4000 w2" u w3] assms
    by simp
  have a2: "streamMessage (c\<lparr>retryCount := 1\<rparr>) content0 (sleep 2000 w1)
              = (Inl (Err ''Error'' ''An unexpected error occurred''), c\<lparr>retryCount := 2\<rparr>, w3)"
    using streamMessage_retry [of "c\<lparr>retryCount := 1\<rparr>" content0 "sleep 2000 w1" n2 m2 w2]
      assms a3
    by (simp add: maxRetries_def baseDelay_def numeral_2_eq_2 [symmetric])
  show ?thesis
    using streamMessage_retry [of c content0 w0 n1 m1 w1] assms a2
    by (simp add: maxRetries_def baseDelay_def)
qed

subsection \<open>Retry exhaustion\<close>

text \<open>
  C3, against the claim as stated. The claim has the exhausted call surface a
  \<^verbatim>\<open>RetryExhaustedError\<close> that wraps the last underlying error. On \<open>providerDown\<close> the
  fourth call of the provider throws the \<^verbatim>\<open>Error\<close> named \<^verbatim>\<open>Error\<close> with message
  \<^verbatim>\<open>Connection error.\<close>, and what the caller receives after the four attempts is that
  very value: nothing wraps it and nothing in it tells exhaustion from a first failure.
\<close>

theorem streamMessage_exhaustion_rethrows_unwrapped:
  "snd (server providerDown 3) = Throws (Err ''Error'' ''Connection error.'') \<and>
   calls (trace (snd (snd (streamMessage freshClient ''hi'' providerDown)))) =
     [MessagesCreate ''hi'', MessagesCreate ''hi'', MessagesCreate ''hi'',
      MessagesCreate ''hi''] \<and>
   fst (streamMessage freshClient ''hi'' providerDown) =
     Inl (Err ''Error'' ''Connection error.'')"
  by (simp add: streamMessage.simps providerDown_def scenario_defs client_defs calls_def)

text \<open>
  C3, amended. Starting with the retry counter at 0, if four consecutive attempts fail
  with \<^verbatim>\<open>Error\<close>s not named \<^verbatim>\<open>AbortError\<close>, the second, third and fourth attempt start
  after backoffs of 2000, 4000 and 8000ms, nothing happens after the fourth attempt (the
  final world is the one it left), the call fails with the fourth attempt's error itself,
  unchanged, and the retry counter is back at 0.
\<close>

theorem streamMessage_retries_exhausted:
  assumes "thread c \<noteq> None" and "retryCount c = 0"
    and "tryBody content0 w0 = (Inl (Err n1 m1), w1)" and "n1 \<noteq> ''AbortError''"
    and "tryBody content0 (sleep 2000 w1) = (Inl (Err n2 m2), w2)" and "n2 \<noteq> ''AbortError''"
    and "tryBody content0 (sleep 4000 w2) = (Inl (Err n3 m3), w3)" and "n3 \<noteq> ''AbortError''"
    and "tryBody content0 (sleep 8000 w3) = (Inl (Err n4 m4), w4)" and "n4 \<noteq> ''AbortError''"
  shows "streamMessage c content0 w0 = (Inl (Err n4 m4), c\<lparr>retryCount := 0\<rparr>, w4)"
proof -
  have a4: "streamMessage (c\<lparr>retryCount := 3\<rparr>) content0 (sleep 8000 w3)
              = (Inl (Err n4 m4), c\<lparr>retryCount := 0\<rparr>, w4)"
    using streamMessage_exhausted [of "c\<lparr>retryCount := 3\<rparr>" content0 "sleep 8000 w3" n4 m4 w4]
      assms
    by (simp add: maxRetries_def)
  have a3: "streamMessage (c\<lparr>retryCount := 2\<rparr>) content0 (sleep 4000 w2)
              = (Inl (Err n4 m4), c\<lparr>retryCount := 0\<rparr>, w4)"
    using streamMessage_retry [of "c\<lparr>retryCount := 2\<rparr>" content0 "sleep 4000 w2" n3 m3 w3]
      assms a4
    by (simp add: maxRetries_def baseDelay_def)
  have a2: "streamMessage (c\<lparr>retryCount := 1\<rparr>) content0 (sleep 2000 w1)
              = (Inl (Err n4 m4), c\<lparr>retryCount := 0\<rparr>, w4)"
    using streamMessage_retry [of "c\<lparr>retryCount := 1\<rparr>" content0 "sleep 2000 w1" n2 m2 w2]
      assms a3
    by (simp add: maxRetries_def baseDelay_def numeral_2_eq_2 [symmetric])
  show ?thesis
    using streamMessage_retry [of c content0 w0 n1 m1 w1] assms a2
    by (simp add: maxRetries_def baseDelay_def)
qed

text \<open>The amended C3 on \<open>providerDown\<close>: four calls, three backoffs, counter 0.\<close>

theorem streamMessage_retries_exhausted_witness:
  "thread freshClient \<noteq> None \<and> retryCount freshClient = 0 \<and>
   fst (tryBody ''hi'' providerDown) = Inl (Err ''Error'' ''Connection error.'') \<and>
   streamMessage freshClient ''hi'' providerDown =
     (Inl (Err ''Error'' ''Connection error.''), freshClient\<lparr>retryCount := 0\<rparr>,
      \<lparr>now = 14400, abortAt = None, server = script [] connectionError, ncalls = 4,
        trace = [Call (MessagesCreate ''hi''), Sleep 2000,
                 Call (MessagesCreate ''hi''), Sleep 4000,
                 Call (MessagesCreate ''hi''), Sleep 8000,
                 Call (MessagesCreate ''hi'')]\<rparr>)"
  using streamMessage_retries_exhausted [of freshClient "''hi''" providerDown
      "''Error''" "''Connection error.''"
      "\<lparr>now = 100, abortAt = None, server = script [] connectionError, ncalls = 1,
        trace = [Call (MessagesCreate ''hi'')]\<rparr>"
      "''Error''" "''Connection error.''"
      "\<lparr>now = 2200, abortAt = None, server = script [] connectionError, ncalls = 2,
        trace = [Call (MessagesCreate ''hi''), Sleep 2000, Call (MessagesCreate ''hi'')]\<rparr>"
      "''Error''" "''Connection error.''"
      "\<lparr>now = 6300, abortAt = None, server = script [] connectionError, ncalls = 3,
        trace = [Call (MessagesCreate ''hi''), Sleep 2000, Call (MessagesCreate ''hi''),
                 Sleep 4000, Call (MessagesCreate ''hi'')]\<rparr>"
      "''Error''" "''Connection error.''"
      "\<lparr>now = 14400, abortAt = None, server = script [] connectionError, ncalls = 4,
        trace = [Call (MessagesCreate ''hi''), Sleep 2000, Call (MessagesCreate ''hi''),
                 Sleep 4000, Call (MessagesCreate ''hi''), Sleep 8000,
                 Call (MessagesCreate ''hi'')]\<rparr>"]
  by (simp add: providerDown_def scenario_defs client_defs)

subsection \<open>The poll loop\<close>

text \<open>A normal return of the loop comes from a status call made after a passed check.\<close>

lemma pollLoop_success_last_poll:
  "pollLoop startTime w = (Inr u, w') \<Longrightarrow>
   \<exists>w1 p. \<not> aborted w1 \<and> now w1 - startTime \<le> timeout \<and>
          call RunsRetrieve w1 = (Returns p, w') \<and> status p = ''completed''"
proof (induction startTime w rule: pollLoop.induct)
  case (1 startTime w)
  from "1.prems" have na: "\<not> aborted w"
    by (subst (asm) pollLoop.simps) (auto split: if_splits)
  from "1.prems" na have nt: "\<not> timeout < now w - startTime"
    by (subst (asm) pollLoop.simps) (auto split: if_splits)
  from "1.prems" na nt obtain p where p: "fst (call RunsRetrieve w) = Returns p"
    by (subst (asm) pollLoop.simps) (auto split: response.splits)
  show ?case
  proof (cases "status p = ''completed''")
    case True
    with "1.prems" na nt p have "w' = snd (call RunsRetrieve w)"
      by (subst (asm) pollLoop.simps) simp
    with p True na nt show ?thesis
      by (metis linorder_not_less prod.collapse)
  next
    case False
    with "1.prems" na nt p have rest:
      "status p \<noteq> ''failed''" "status p \<noteq> ''cancelled''" "status p \<noteq> ''expired''"
      "status p \<noteq> ''requires_action''"
      by (subst (asm) pollLoop.simps, auto split: if_splits)+
    with "1.prems" na nt p False
    have "pollLoop startTime (sleep 1000 (snd (call RunsRetrieve w))) = (Inr u, w')"
      by (subst (asm) pollLoop.simps) simp
    from "1.IH" [OF na nt p False rest this] show ?thesis .
  qed
qed

text \<open>
  The deadline does fire: a run that the provider reports as \<^verbatim>\<open>queued\<close> or
  \<^verbatim>\<open>in_progress\<close> for ever, polled without cancellation, ends in \<^verbatim>\<open>Request timed out\<close>.
\<close>

lemma pollLoop_transient_forever:
  assumes "abortAt w = None"
    and "\<forall>k. \<exists>p. snd (server w k) = Returns p \<and>
                 (status p = ''queued'' \<or> status p = ''in_progress'')"
  shows "fst (pollLoop startTime w) = Inl (Err ''Error'' ''Request timed out'')"
  using assms
proof (induction startTime w rule: pollLoop.induct)
  case (1 startTime w)
  have na: "\<not> aborted w"
    using "1.prems" by (simp add: aborted_def)
  show ?case
  proof (cases "timeout < now w - startTime")
    case True
    with na show ?thesis
      by (subst pollLoop.simps) simp
  next
    case False
    obtain p where p: "snd (server w (ncalls w)) = Returns p"
      "status p = ''queued'' \<or> status p = ''in_progress''"
      using "1.prems"(2) by blast
    let ?w' = "sleep 1000 (snd (call RunsRetrieve w))"
    have c: "fst (call RunsRetrieve w) = Returns p"
      using p by (simp add: call_def)
    have step: "pollLoop startTime w = pollLoop startTime ?w'"
      using na False c p(2) by (subst pollLoop.simps) auto
    have "fst (pollLoop startTime ?w') = Inl (Err ''Error'' ''Request timed out'')"
      using "1.IH" [OF na False c] p(2) "1.prems"
      by (auto simp: call_def sleep_def)
    with step show ?thesis
      by simp
  qed
qed

text \<open>
  C6, against the claim as stated. The claim has the call fail with the timeout whenever
  the time elapsed since polling began exceeds 30 seconds. On \<open>slowStatusWorld\<close> the one
  status call returns 40 seconds after polling began and the call exits successfully: the
  deadline is read only at the top of an iteration. And at a check where the deadline has
  passed but the signal is aborted (\<open>lateAbortedWorld\<close>, 30001ms after the start), the
  failure is \<^verbatim>\<open>Request cancelled\<close>, not the timeout.
\<close>

theorem waitForRunCompletion_late_completion_succeeds:
  "timeout < 40000 \<and>
   waitForRunCompletion slowStatusWorld =
     (Inr (),
      \<lparr>now = 40000, abortAt = None,
        server = script [(40000, Returns (runInState ''completed''))] connectionError,
        ncalls = 1, trace = [Call RunsRetrieve]\<rparr>) \<and>
   timeout < now lateAbortedWorld - 0 \<and>
   pollLoop 0 lateAbortedWorld = (Inl (Err ''Error'' ''Request cancelled''), lateAbortedWorld)"
  by (simp add: pollLoop.simps slowStatusWorld_def lateAbortedWorld_def scenario_defs
        client_defs)

text \<open>
  C6, amended. \<^verbatim>\<open>waitForRunCompletion\<close> is the poll loop started at the current time.
  Every iteration first checks the signal and fails with \<^verbatim>\<open>Request cancelled\<close> if it is
  aborted; otherwise, if more than 30000ms have elapsed since polling began, it fails with
  \<^verbatim>\<open>Request timed out\<close> without polling; otherwise it polls and the observed state
  decides, however long the status call took: \<^verbatim>\<open>completed\<close> returns normally;
  \<^verbatim>\<open>failed\<close> fails with the run's own error message (or \<^verbatim>\<open>Run failed\<close>),
  \<^verbatim>\<open>cancelled\<close> with \<^verbatim>\<open>Run was cancelled\<close>, \<^verbatim>\<open>expired\<close> with \<^verbatim>\<open>Run expired\<close>,
  \<^verbatim>\<open>requires_action\<close> with \<^verbatim>\<open>Run requires action\<close>; \<^verbatim>\<open>queued\<close> and \<^verbatim>\<open>in_progress\<close>
  sleep 1000ms and start the next iteration. So a normal return always follows a status
  call that was made within the deadline and answered \<^verbatim>\<open>completed\<close>, and a run that
  stays \<^verbatim>\<open>queued\<close> or \<^verbatim>\<open>in_progress\<close>, polled without cancellation, ends in
  \<^verbatim>\<open>Request timed out\<close>.
\<close>

theorem pollLoop_outcomes:
  "waitForRunCompletion w0 = pollLoop (now w0) w0 \<and>
   (aborted w \<longrightarrow>
      pollLoop startTime w = (Inl (Err ''Error'' ''Request cancelled''), w)) \<and>
   (\<not> aborted w \<and> timeout < now w - startTime \<longrightarrow>
      pollLoop startTime w = (Inl (Err ''Error'' ''Request timed out''), w)) \<and>
   (\<not> aborted w \<and> now w - startTime \<le> timeout \<and> call RunsRetrieve w = (Returns p, w') \<longrightarrow>
      (status p = ''completed'' \<longrightarrow> pollLoop startTime w = (Inr (), w')) \<and>
      (status p = ''failed'' \<longrightarrow>
         pollLoop startTime w = (Inl (Err ''Error'' (failureMessage p)), w')) \<and>
      (status p = ''cancelled'' \<longrightarrow>
         pollLoop startTime w = (Inl (Err ''Error'' ''Run was cancelled''), w')) \<and>
      (status p = ''expired'' \<longrightarrow>
         pollLoop startTime w = (Inl (Err ''Error'' ''Run expired''), w')) \<and>
      (status p = ''requires_action'' \<longrightarrow>
         pollLoop startTime w = (Inl (Err ''Error'' ''Run requires action''), w')) \<and>
      (status p = ''queued'' \<or> status p = ''in_progress'' \<longrightarrow>
         pollLoop startTime w = pollLoop startTime (sleep 1000 w'))) \<and>
   (pollLoop startTime w = (Inr u, w'') \<longrightarrow>
      (\<exists>w1 p1. \<not> aborted w1 \<and> now w1 - startTime \<le> timeout \<and>
               call RunsRetrieve w1 = (Returns p1, w'') \<and> status p1 = ''completed'')) \<and>
   (abortAt w = None \<and>
    (\<forall>k. \<exists>p2. snd (server w k) = Returns p2 \<and>
               (status p2 = ''queued'' \<or> status p2 = ''in_progress'')) \<longrightarrow>
      fst (pollLoop startTime w) = Inl (Err ''Error'' ''Request timed out''))"
proof (intro conjI impI)
  show "waitForRunCompletion w0 = pollLoop (now w0) w0"
    by (simp add: waitForRunCompletion_def)
next
  assume "aborted w"
  then show "pollLoop startTime w = (Inl (Err ''Error'' ''Request cancelled''), w)"
    by (subst pollLoop.simps) simp
next
  assume "\<not> aborted w \<and> timeout < now w - startTime"
  then show "pollLoop startTime w = (Inl (Err ''Error'' ''Request timed out''), w)"
    by (subst pollLoop.simps) simp
next
  assume h: "\<not> aborted w \<and> now w - startTime \<le> timeout \<and>
             call RunsRetrieve w = (Returns p, w')"
  {
    assume "status p = ''completed''"
    with h show "pollLoop startTime w = (Inr (), w')"
      by (subst pollLoop.simps) simp
  }
  {
    assume "status p = ''failed''"
    with h show "pollLoop startTime w = (Inl (Err ''Error'' (failureMessage p)), w')"
      by (subst pollLoop.simps) simp
  }
  {
    assume "status p = ''cancelled''"
    with h show "pollLoop startTime w = (Inl (Err ''Error'' ''Run was cancelled''), w')"
      by (subst pollLoop.simps) simp
  }
  {
    assume "status p = ''expired''"
    with h show "pollLoop startTime w = (Inl (Err ''Error'' ''Run expired''), w')"
      by (subst pollLoop.simps) simp
  }
  {
    assume "status p = ''requires_action''"
    with h show "pollLoop startTime w = (Inl (Err ''Error'' ''Run requires action''), w')"
      by (subst pollLoop.simps) simp
  }
  {
    assume "status p = ''queued'' \<or> status p = ''in_progress''"
    with h show "pollLoop startTime w = pollLoop startTime (sleep 1000 w')"
      by (subst pollLoop.simps) auto
  }
next
  assume "pollLoop startTime w = (Inr u, w'')"
  then show "\<exists>w1 p1. \<not> aborted w1 \<and> now w1 - startTime \<le> timeout \<and>
                     call RunsRetrieve w1 = (Returns p1, w'') \<and> status p1 = ''completed''"
    by (rule pollLoop_success_last_poll)
next
  assume "abortAt w = None \<and>
          (\<forall>k. \<exists>p2. snd (server w k) = Returns p2 \<and>
                     (status p2 = ''queued'' \<or> status p2 = ''in_progress''))"
  then show "fst (pollLoop startTime w) = Inl (Err ''Error'' ''Request timed out'')"
    using pollLoop_transient_forever [of w startTime] by blast
qed

text \<open>
  The amended C6 on concrete polls: an aborted check past the deadline, a check one
  millisecond past the deadline, one poll for each observed state, and a provider that
  answers \<^verbatim>\<open>in_progress\<close> for ever.
\<close>

theorem pollLoop_outcomes_witness:
  "aborted lateAbortedWorld \<and>
   pollLoop 0 lateAbortedWorld = (Inl (Err ''Error'' ''Request cancelled''), lateAbortedWorld) \<and>
   \<not> aborted (pollingWorld 30001 ''queued'') \<and>
   waitForRunCompletion (pollingWorld 5 ''completed'') = (Inr (), polledWorld 5 ''completed'') \<and>
   pollLoop 0 (pollingWorld 30001 ''queued'') =
     (Inl (Err ''Error'' ''Request timed out''), pollingWorld 30001 ''queued'') \<and>
   pollLoop 0 (pollingWorld 30000 ''completed'') = (Inr (), polledWorld 30000 ''completed'') \<and>
   pollLoop 0 (pollingWorld 5 ''failed'') =
     (Inl (Err ''Error'' ''Run failed''), polledWorld 5 ''failed'') \<and>
   pollLoop 0 (pollingWorld 5 ''cancelled'') =
     (Inl (Err ''Error'' ''Run was cancelled''), polledWorld 5 ''cancelled'') \<and>
   pollLoop 0 (pollingWorld 5 ''expired'') =
     (Inl (Err ''Error'' ''Run expired''), polledWorld 5 ''expired'') \<and>
   pollLoop 0 (pollingWorld 5 ''requires_action'') =
     (Inl (Err ''Error'' ''Run requires action''), polledWorld 5 ''requires_action'') \<and>
   pollLoop 0 (pollingWorld 5 ''in_progress'') =
     pollLoop 0 (sleep 1000 (polledWorld 5 ''in_progress'')) \<and>
   fst (waitForRunCompletion (startWorld None (script [] (reply ''in_progress'')))) =
     Inl (Err ''Error'' ''Request timed out'')"
proof -
  note defs = pollingWorld_def polledWorld_def lateAbortedWorld_def scenario_defs client_defs
  let ?forever = "startWorld None (script [] (reply ''in_progress''))"
  have a: "aborted lateAbortedWorld"
    by (simp add: defs)
  have c1: "pollLoop 0 lateAbortedWorld
              = (Inl (Err ''Error'' ''Request cancelled''), lateAbortedWorld)"
    using pollLoop_outcomes [where w = lateAbortedWorld and startTime = 0] a by blast
  have n: "\<not> aborted (pollingWorld 30001 ''queued'')"
    by (simp add: defs)
  have c2: "pollLoop 0 (pollingWorld 30001 ''queued'')
              = (Inl (Err ''Error'' ''Request timed out''), pollingWorld 30001 ''queued'')"
    using pollLoop_outcomes [where w = "pollingWorld 30001 ''queued''" and startTime = 0] n
    by (simp add: defs)
  have c3: "waitForRunCompletion (pollingWorld 5 ''completed'')
              = (Inr (), polledWorld 5 ''completed'')"
    using pollLoop_outcomes [where w = "pollingWorld 5 ''completed''" and startTime = 5
        and ?w0.0 = "pollingWorld 5 ''completed''"
        and p = "runInState ''completed''" and w' = "polledWorld 5 ''completed''"]
    by (simp add: defs)
  have c4: "pollLoop 0 (pollingWorld 30000 ''completed'') = (Inr (), polledWorld 30000 ''completed'')"
    using pollLoop_outcomes [where w = "pollingWorld 30000 ''completed''" and startTime = 0
        and p = "runInState ''completed''" and w' = "polledWorld 30000 ''completed''"]
    by (simp add: defs)
  have c5: "pollLoop 0 (pollingWorld 5 ''failed'')
              = (Inl (Err ''Error'' ''Run failed''), polledWorld 5 ''failed'')"
    using pollLoop_outcomes [where w = "pollingWorld 5 ''failed''" and startTime = 0
        and p = "runInState ''failed''" and w' = "polledWorld 5 ''failed''"]
    by (simp add: defs)
  have c6: "pollLoop 0 (pollingWorld 5 ''cancelled'')
              = (Inl (Err ''Error'' ''Run was cancelled''), polledWorld 5 ''cancelled'')"
    using pollLoop_outcomes [where w = "pollingWorld 5 ''cancelled''" and startTime = 0
        and p = "runInState ''cancelled''" and w' = "polledWorld 5 ''cancelled''"]
    by (simp add: defs)
  have c7: "pollLoop 0 (pollingWorld 5 ''expired'')
              = (Inl (Err ''Error'' ''Run expired''), polledWorld 5 ''expired'')"
    using pollLoop_outcomes [where w = "pollingWorld 5 ''expired''" and startTime = 0
        and p = "runInState ''expired''" and w' = "polledWorld 5 ''expired''"]
    by (simp add: defs)
  have c8: "pollLoop 0 (pollingWorld 5 ''requires_action'')
              = (Inl (Err ''Error'' ''Run requires action''), polledWorld 5 ''requires_action'')"
    using pollLoop_outcomes [where w = "pollingWorld 5 ''requires_action''" and startTime = 0
        and p = "runInState ''requires_action''" and w' = "polledWorld 5 ''requires_action''"]
    by (simp add: defs)
  have c9: "pollLoop 0 (pollingWorld 5 ''in_progress'')
              = pollLoop 0 (sleep 1000 (polledWorld 5 ''in_progress''))"
    using pollLoop_outcomes [where w = "pollingWorld 5 ''in_progress''" and startTime = 0
        and p = "runInState ''in_progress''" and w' = "polledWorld 5 ''in_progress''"]
    by (simp add: defs)
  have tr: "abortAt ?forever = None \<and>
            (\<forall>k. \<exists>p2. snd (server ?forever k) = Returns p2 \<and>
                       (status p2 = ''queued'' \<or> status p2 = ''in_progress''))"
    by (simp add: defs)
  have "fst (pollLoop 0 ?forever) = Inl (Err ''Error'' ''Request timed out'')"
    using pollLoop_outcomes [where w = ?forever and startTime = 0] tr by blast
  then have c10: "fst (waitForRunCompletion ?forever) = Inl (Err ''Error'' ''Request timed out'')"
    by (simp add: waitForRunCompletion_def startWorld_def)
  from a c1 n c3 c2 c4 c5 c6 c7 c8 c9 c10 show ?thesis
    by (intro conjI)
qed

subsection \<open>The precondition\<close>

text \<open>
  C10. A call made while no thread has been created fails with \<^verbatim>\<open>Thread not initialized\<close>
  and nothing else happens: the world is unchanged (no provider call, no backoff sleep)
  and so is the client, retry counter included.
\<close>

theorem streamMessage_thread_not_initialized:
  "thread c = None \<Longrightarrow>
   streamMessage c content0 w = (Inl (Err ''Error'' ''Thread not initialized''), c, w)"
  by (subst streamMessage.simps) simp

text \<open>C10 on a client without a thread whose counter stands at 2.\<close>

theorem streamMessage_thread_not_initialized_witness:
  "thread \<lparr>thread = None, retryCount = 2\<rparr> = None \<and>
   streamMessage \<lparr>thread = None, retryCount = 2\<rparr> ''hi'' providerDown =
     (Inl (Err ''Error'' ''Thread not initialized''), \<lparr>thread = None, retryCount = 2\<rparr>,
      providerDown)"
  using streamMessage_thread_not_initialized
          [of "\<lparr>thread = None, retryCount = 2\<rparr>" "''hi''" providerDown]
  by simp

subsection \<open>Chunking\<close>

lemma split_on_not_Nil: "split_on sep s \<noteq> []"
  by (induction s) (auto split: list.splits)

lemma join_Cons_piece: "join sep ((x # piece) # pieces) = x # join sep (piece # pieces)"
  by (cases pieces) simp_all

text \<open>Splitting at a character and joining with it again gives the string back.\<close>

lemma join_split_on: "join [sep] (split_on sep s) = s"
proof (induction s)
  case Nil
  then show ?case by simp
next
  case (Cons x xs)
  obtain p ps where e: "split_on sep xs = p # ps"
    using split_on_not_Nil [of sep xs] by (cases "split_on sep xs") auto
  show ?case
  proof (cases "x = sep")
    case True
    with e Cons show ?thesis by simp
  next
    case False
    with e Cons show ?thesis by (simp add: join_Cons_piece)
  qed
qed

lemma join_append:
  "xs \<noteq> [] \<Longrightarrow> ys \<noteq> [] \<Longrightarrow> join sep (xs @ ys) = join sep xs @ sep @ join sep ys"
proof (induction xs)
  case Nil
  then show ?case by simp
next
  case (Cons x xs)
  show ?case
  proof (cases xs)
    case Nil
    with Cons.prems show ?thesis by (cases ys) simp_all
  next
    case (Cons a list)
    with Cons.IH Cons.prems show ?thesis by simp
  qed
qed

text \<open>The number of chunks left from index \<open>i\<close> on, one loop iteration apart.\<close>

lemma count_step: "i < n \<Longrightarrow> (n - i + 9) div 10 = Suc ((n - (i + 10) + 9) div (10::nat))"
proof (cases "i + 10 \<le> n")
  case True
  then have "n - i + 9 = (n - (i + 10) + 9) + 10"
    by simp
  then show ?thesis
    by (simp only: div_add_self2)
next
  case False
  assume "i < n"
  with False have "n - (i + 10) = 0" "n - i + 9 < 20" "10 \<le> n - i + 9"
    by simp_all
  then show ?thesis
    by (simp add: div_nat_eqI)
qed

lemma upt_0_Suc: "[0..<Suc k] = 0 # map Suc [0..<k]"
  by (metis map_Suc_upt upt_conv_Cons zero_less_Suc)

lemma upt_chunks:
  "i < n \<Longrightarrow> [0..<(n - i + 9) div 10] = 0 # map Suc [0..<(n - (i + 10) + 9) div 10]"
  by (simp only: count_step upt_0_Suc)

lemma chunkLoop_trace:
  "trace (chunkLoop i words w) =
     trace w @
     concat (map (\<lambda>j. [Yield (join '' '' (take 10 (drop (i + 10 * j) words)) @ '' ''), Sleep 50])
               [0..<(length words - i + 9) div 10])"
proof (induction i words w rule: chunkLoop.induct)
  case (1 i words w)
  show ?case
  proof (cases "i < length words")
    case True
    have "chunkLoop i words w =
            chunkLoop (i + chunkSize) words
              (sleep 50 (yield (join '' '' (slice i (i + chunkSize) words) @ '' '') w))"
      using True by (subst chunkLoop.simps) simp
    then show ?thesis
      unfolding upt_chunks [OF True]
      using "1.IH" [OF True]
      by (simp add: chunkSize_def slice_def sleep_def yield_def comp_def add.assoc)
  next
    case False
    then have "(length words - i + 9) div 10 = 0"
      by simp
    with False show ?thesis
      by (subst chunkLoop.simps) simp
  qed
qed

lemma concat_chunks:
  "i < length words \<Longrightarrow>
   concat (map (\<lambda>j. join '' '' (take 10 (drop (i + 10 * j) words)) @ '' '')
             [0..<(length words - i + 9) div 10]) = join '' '' (drop i words) @ '' ''"
proof (induction "length words - i" arbitrary: i rule: less_induct)
  case less
  note lt = less.prems
  show ?case
  proof (cases "i + 10 < length words")
    case True
    have ih: "concat (map (\<lambda>j. join '' '' (take 10 (drop (i + 10 + 10 * j) words)) @ '' '')
                        [0..<(length words - (i + 10) + 9) div 10])
                = join '' '' (drop (i + 10) words) @ '' ''"
      using less.hyps [of "i + 10"] True by simp
    have sp: "drop i words = take 10 (drop i words) @ drop (i + 10) words"
      by (metis add.commute append_take_drop_id drop_drop)
    have ne: "take 10 (drop i words) \<noteq> []" "drop (i + 10) words \<noteq> []"
      using True by auto
    have "join '' '' (drop i words) =
            join '' '' (take 10 (drop i words)) @ '' '' @ join '' '' (drop (i + 10) words)"
      using join_append [OF ne, of "'' ''"] sp by simp
    then show ?thesis
      unfolding upt_chunks [OF lt]
      using ih by (simp add: comp_def add.assoc)
  next
    case False
    then have z: "(length words - (i + 10) + 9) div 10 = 0"
      by simp
    show ?thesis
      unfolding upt_chunks [OF lt] z
      using False by simp
  qed
qed

text \<open>When every step of the \<^verbatim>\<open>try\<close> block succeeds, what it does last is emit the chunks.\<close>

lemma tryBody_emits:
  assumes "call (MessagesCreate content0) w0 = (Returns p1, w1)"
    and "call RunsCreate w1 = (Returns p2, w2)"
    and "waitForRunCompletion w2 = (Inr u, w3)"
    and "call MessagesList w3 = (Returns messages, w4)"
    and "data messages = lastMessage # older"
    and "role lastMessage = ''assistant''"
    and "content lastMessage = messageContent # parts"
    and "content_type messageContent = ''text''"
  shows "tryBody content0 w0 = (Inr (), emitChunks (text_value messageContent) w4)"
  using assms by (simp add: tryBody_def)

text \<open>
  C4, against the claim as stated. For the text \<^verbatim>\<open>hello world\<close> the only fragment is
  \<^verbatim>\<open>hello world\<close> followed by a space, so the fragments concatenate to the text plus a
  space, not to the text; and the first thing emitted is the fragment, with no pause
  before it.
\<close>

theorem emitChunks_concat_has_trailing_space:
  "trace (emitChunks ''hello world'' providerDown) = [Yield ''hello world '', Sleep 50] \<and>
   concat (fragments (trace (emitChunks ''hello world'' providerDown))) = ''hello world '' \<and>
   concat (fragments (trace (emitChunks ''hello world'' providerDown))) \<noteq> ''hello world''"
  by (simp add: chunkLoop.simps providerDown_def scenario_defs client_defs fragments_def)

text \<open>
  C4, amended. The final text is split at every single space character (\<^verbatim>\<open>split(' ')\<close>;
  other whitespace does not separate, and two adjacent spaces enclose an empty word). The
  fragments are the consecutive groups of 10 of these words (the last group may be
  shorter), each group joined by single spaces and followed by one more space. Each
  fragment is yielded and then followed by a 50ms pause. Concatenated, the fragments are
  the original text followed by exactly one space.
\<close>

theorem emitChunks_fragments:
  "trace (emitChunks text w) =
     trace w @
     concat (map (\<lambda>j. [Yield (join '' '' (take 10 (drop (10 * j) (split_on CHR '' '' text)))
                                @ '' ''),
                        Sleep 50])
               [0..<(length (split_on CHR '' '' text) + 9) div 10]) \<and>
   concat (map (\<lambda>j. join '' '' (take 10 (drop (10 * j) (split_on CHR '' '' text))) @ '' '')
             [0..<(length (split_on CHR '' '' text) + 9) div 10]) = text @ '' ''"
proof
  show "trace (emitChunks text w) =
     trace w @
     concat (map (\<lambda>j. [Yield (join '' '' (take 10 (drop (10 * j) (split_on CHR '' '' text)))
                                @ '' ''),
                        Sleep 50])
               [0..<(length (split_on CHR '' '' text) + 9) div 10])"
    using chunkLoop_trace [of 0 "split_on CHR '' '' text" w] by (simp add: emitChunks_def)
  have "0 < length (split_on CHR '' '' text)"
    using split_on_not_Nil [of "CHR '' ''" "text"] by simp
  from concat_chunks [OF this]
  show "concat (map (\<lambda>j. join '' '' (take 10 (drop (10 * j) (split_on CHR '' '' text))) @ '' '')
                  [0..<(length (split_on CHR '' '' text) + 9) div 10]) = text @ '' ''"
    using join_split_on [of "CHR '' ''" "text"] by simp
qed

text \<open>The amended C4 on a text of twelve words: a chunk of ten, then a chunk of two.\<close>

theorem emitChunks_fragments_witness:
  "trace (emitChunks ''a b c d e f g h i j k l'' providerDown) =
     [Yield ''a b c d e f g h i j '', Sleep 50, Yield ''k l '', Sleep 50] \<and>
   ''a b c d e f g h i j '' @ ''k l '' = ''a b c d e f g h i j k l'' @ '' ''"
  using emitChunks_fragments [of "''a b c d e f g h i j k l''" providerDown]
  by (simp add: providerDown_def startWorld_def upt_rec)

section \<open>Properties of GraphRAGClient\<close>

subsection \<open>Loading the artifacts\<close>

text \<open>
  C8, against the claim as stated. The embeddings have the keys \<^verbatim>\<open>admit_rate\<close> and
  \<^verbatim>\<open>unitid\<close>, with vectors of dimensions 2 and 1; the names file lists \<^verbatim>\<open>yield_rate\<close>
  and \<^verbatim>\<open>admit_rate\<close>. The load succeeds and keeps both as they came.
\<close>

theorem loadData_accepts_mismatch:
  "loadData emptyGraph (okResponse mismatchedEmbeddings) (okResponse mismatchedNamesText) =
     (Inr (),
      \<lparr>nodeEmbeddings = [(''admit_rate'', [1, 0]), (''unitid'', [1])],
        nodeNames = [''yield_rate'', ''admit_rate''],
        initialized = True\<rparr>)"
  by (simp add: loadData_def emptyGraph_def okResponse_def mismatchedEmbeddings_def
        mismatchedNamesText_def)

text \<open>
  C8, amended. \<^verbatim>\<open>loadData\<close> succeeds exactly when both fetches answer with \<^verbatim>\<open>ok\<close> and
  both bodies can be read; it then stores the embeddings as parsed and the non-empty lines
  of the names text, and marks the client initialized. It compares neither the key sets nor
  the vector dimensions, so nothing relates the stored names to the stored embeddings.
\<close>

theorem loadData_outcome:
  "loadData g (FetchResponse True st1 (Inr embeddings)) (FetchResponse True st2 (Inr namesText)) =
     (Inr (),
      g\<lparr>nodeEmbeddings := embeddings,
        nodeNames := filter (\<lambda>s. s \<noteq> []) (split_on (CHR 0x0A) namesText),
        initialized := True\<rparr>) \<and>
   ((fst (loadData g r1 r2) = Inr ()) =
      (\<exists>s1 b1 s2 b2. r1 = FetchResponse True s1 (Inr b1) \<and> r2 = FetchResponse True s2 (Inr b2))) \<and>
   loadData g (FetchResponse False st1 body1) r2 =
     (Inl (Err ''Error'' (''Failed to load node embeddings: '' @ st1)), g) \<and>
   loadData g (FetchResponse True st1 (Inr embeddings)) (FetchResponse False st2 body2) =
     (Inl (Err ''Error'' (''Failed to load node names: '' @ st2)),
      g\<lparr>nodeEmbeddings := embeddings\<rparr>)"
  by (auto simp: loadData_def split: fetched.splits sum.splits)

subsection \<open>Top-k query\<close>

text \<open>Without a \<^verbatim>\<open>NaN\<close>, the sort puts higher similarities first and keeps ties in place.\<close>

lemma stable_desc_sorted:
  assumes "None \<notin> snd ` set xs"
  shows "sorted_wrt (\<lambda>a b. js_ge (snd a) (snd b))
           (rev (sort_key (\<lambda>e. the (snd e)) (rev xs)))"
proof -
  let ?f = "\<lambda>e :: 'b \<times> 'a option. the (snd e)"
  let ?s = "sort_key ?f (rev xs)"
  have "sorted (map ?f ?s)"
    by (rule sorted_sort_key)
  then have a: "sorted_wrt (\<lambda>a b. ?f a \<le> ?f b) ?s"
    by (simp add: sorted_map)
  have mem: "snd e \<noteq> None" if "e \<in> set ?s" for e
    using assms that by force
  have "sorted_wrt (\<lambda>a b. js_ge (snd b) (snd a)) ?s"
  proof (rule sorted_wrt_mono_rel [OF _ a])
    fix x y
    assume "x \<in> set ?s" "y \<in> set ?s" "?f x \<le> ?f y"
    with mem [of x] mem [of y] show "js_ge (snd y) (snd x)"
      by (auto simp: js_ge_def)
  qed
  then show ?thesis
    by (simp add: sorted_wrt_rev)
qed

lemma stable_desc_filter:
  assumes "None \<notin> snd ` set xs"
  shows "filter (\<lambda>e. snd e = s) (rev (sort_key (\<lambda>e. the (snd e)) (rev xs)))
           = filter (\<lambda>e. snd e = s) xs"
proof (cases s)
  case None
  have "\<forall>e \<in> set xs. snd e \<noteq> None"
    using assms by force
  then have "filter (\<lambda>e. snd e = None) xs = []"
    "filter (\<lambda>e. snd e = None) (rev (sort_key (\<lambda>e. the (snd e)) (rev xs))) = []"
    by (auto simp: filter_empty_conv)
  with None show ?thesis
    by simp
next
  case (Some v)
  let ?f = "\<lambda>e :: 'b \<times> 'a option. the (snd e)"
  have mem: "\<forall>e \<in> set xs. snd e \<noteq> None"
    using assms by force
  have eq1: "filter (\<lambda>e. snd e = Some v) ys = filter (\<lambda>e. ?f e = v) ys"
    if "set ys \<subseteq> set xs" for ys
    using that mem by (intro filter_cong) fastforce+
  have "filter (\<lambda>e. ?f e = v) (sort_key ?f (rev xs)) = filter (\<lambda>e. ?f e = v) (rev xs)"
    by (rule sort_key_stable)
  then have "filter (\<lambda>e. ?f e = v) (rev (sort_key ?f (rev xs))) = filter (\<lambda>e. ?f e = v) xs"
    by (simp add: rev_filter [symmetric])
  then show ?thesis
    using eq1 [of xs] eq1 [of "rev (sort_key ?f (rev xs))"] Some by simp
qed

lemma prefix_filter_take: "prefix (filter P (take k xs)) (filter P xs)"
proof -
  have "filter P xs = filter P (take k xs) @ filter P (drop k xs)"
    by (metis append_take_drop_id filter_append)
  then show ?thesis
    by (simp add: prefix_def)
qed

lemma sortBySimilarity_mset:
  "(\<And>xs. mset (engineOrder xs) = mset xs) \<Longrightarrow>
   mset (sortBySimilarity engineOrder xs) = mset xs"
  by (simp add: sortBySimilarity_def)

lemma corpus_similarities:
  "similarities corpusCosine corpusGraph [1, 0] =
     [(''admit_rate'', Some 1), (''yield_rate'', Some 0), (''unitid'', Some 1)]"
  by (simp add: similarities_def corpusCosine_def corpusGraph_def corpusEmbeddings_def)

text \<open>
  C5, against the claim as stated. The client is loaded from the two corpus artifacts; the
  names file puts \<^verbatim>\<open>unitid\<close> before \<^verbatim>\<open>admit_rate\<close>. Both have similarity 1 to the
  query, and the query returns \<^verbatim>\<open>admit_rate\<close> first: the order of the embeddings
  artifact, not that of the names file. And on an index that holds a zero vector the
  first entry returned has similarity \<^verbatim>\<open>NaN\<close>, which is not at or above the similarity 1
  of the second (in either order the two entries are not in non-increasing order).
\<close>

theorem queryFaissIndex_ties_ignore_nodeNames:
  "loadData emptyGraph (okResponse corpusEmbeddings) (okResponse corpusNamesText) =
     (Inr (), corpusGraph) \<and>
   nodeNames corpusGraph = [''unitid'', ''yield_rate'', ''admit_rate''] \<and>
   queryFaissIndex corpusCosine keepOrder corpusGraph [1, 0] 2 =
     [(''admit_rate'', Some 1), (''unitid'', Some 1)] \<and>
   queryFaissIndex corpusCosine keepOrder zeroVectorGraph [1, 0] 5 =
     [(''admit_rate'', None), (''unitid'', Some 1)] \<and>
   \<not> js_ge None (Some (1 :: real)) \<and> \<not> js_ge (Some (1 :: real)) None"
  by (simp add: loadData_def emptyGraph_def okResponse_def corpusNamesText_def corpusGraph_def
        corpusEmbeddings_def zeroVectorGraph_def queryFaissIndex_def similarities_def
        sortBySimilarity_def corpusCosine_def keepOrder_def slice_def js_ge_def)

text \<open>
  C5, amended. On an engine whose sort permutes the array, for every index with \<open>N\<close>
  stored vectors, every query vector and every \<open>k\<close>, the query returns \<open>min k N\<close> of the
  entries of \<open>similarities\<close> (the stored names, in the enumeration order of the embeddings
  mapping, each with its computed similarity). When none of these similarities is
  \<^verbatim>\<open>NaN\<close>, the returned entries are in non-increasing order of similarity; the returned
  entries of any one similarity value are the first ones of that value in the enumeration
  order of the embeddings mapping, in that order (\<^verbatim>\<open>nodeNames\<close> plays no part); and no
  entry left out has a higher similarity than one returned.
\<close>

theorem queryFaissIndex_topK:
  assumes "\<And>xs :: (string \<times> 's::linorder option) list. mset (engineOrder xs) = mset xs"
  shows
    "length (queryFaissIndex cosineSimilarity engineOrder g q k)
       = min k (length (nodeEmbeddings g)) \<and>
     mset (queryFaissIndex cosineSimilarity engineOrder g q k)
       \<subseteq># mset (similarities cosineSimilarity g q) \<and>
     map fst (similarities cosineSimilarity g q) = map fst (nodeEmbeddings g) \<and>
     (None \<notin> snd ` set (similarities cosineSimilarity g q) \<longrightarrow>
        sorted_wrt (\<lambda>a b. js_ge (snd a) (snd b))
          (queryFaissIndex cosineSimilarity engineOrder g q k) \<and>
        (\<forall>s. prefix
               (filter (\<lambda>e. snd e = s) (queryFaissIndex cosineSimilarity engineOrder g q k))
               (filter (\<lambda>e. snd e = s) (similarities cosineSimilarity g q))) \<and>
        (\<forall>e \<in># mset (similarities cosineSimilarity g q)
                  - mset (queryFaissIndex cosineSimilarity engineOrder g q k).
           \<forall>e' \<in> set (queryFaissIndex cosineSimilarity engineOrder g q k).
             js_ge (snd e') (snd e)))"
proof -
  let ?sims = "similarities cosineSimilarity g q"
  let ?srt = "sortBySimilarity engineOrder ?sims"
  let ?r = "queryFaissIndex cosineSimilarity engineOrder g q k"
  have r: "?r = take k ?srt"
    by (simp add: queryFaissIndex_def slice_def)
  have ms: "mset ?srt = mset ?sims"
    using assms by (rule sortBySimilarity_mset)
  have "length ?srt = length ?sims"
    using ms by (rule mset_eq_length)
  then have len: "length ?r = min k (length (nodeEmbeddings g))"
    by (simp add: r similarities_def)
  have split: "mset ?sims = mset ?r + mset (drop k ?srt)"
    unfolding r ms [symmetric] by (metis append_take_drop_id mset_append)
  then have sub: "mset ?r \<subseteq># mset ?sims"
    by simp
  have names: "map fst ?sims = map fst (nodeEmbeddings g)"
    by (simp add: similarities_def split_def comp_def)
  have ord: "sorted_wrt (\<lambda>a b. js_ge (snd a) (snd b)) ?r \<and>
            (\<forall>s. prefix (filter (\<lambda>e. snd e = s) ?r) (filter (\<lambda>e. snd e = s) ?sims)) \<and>
            (\<forall>e \<in># mset ?sims - mset ?r. \<forall>e' \<in> set ?r. js_ge (snd e') (snd e))"
    if nn: "None \<notin> snd ` set ?sims"
  proof -
    have srt: "?srt = rev (sort_key (\<lambda>e. the (snd e)) (rev ?sims))"
      using nn by (simp add: sortBySimilarity_def)
    have s0: "sorted_wrt (\<lambda>a b. js_ge (snd a) (snd b)) ?srt"
      unfolding srt using nn by (rule stable_desc_sorted)
    then have s1: "sorted_wrt (\<lambda>a b. js_ge (snd a) (snd b)) ?r"
      unfolding r by (rule sorted_wrt_take)
    have s2: "\<forall>s. prefix (filter (\<lambda>e. snd e = s) ?r) (filter (\<lambda>e. snd e = s) ?sims)"
    proof
      fix s
      have "filter (\<lambda>e. snd e = s) ?srt = filter (\<lambda>e. snd e = s) ?sims"
        unfolding srt using nn by (rule stable_desc_filter)
      then show "prefix (filter (\<lambda>e. snd e = s) ?r) (filter (\<lambda>e. snd e = s) ?sims)"
        unfolding r using prefix_filter_take [of "\<lambda>e. snd e = s" k ?srt] by simp
    qed
    have rest: "mset ?sims - mset ?r = mset (drop k ?srt)"
      using split by simp
    have "\<forall>e' \<in> set (take k ?srt). \<forall>e \<in> set (drop k ?srt). js_ge (snd e') (snd e)"
      using s0 sorted_wrt_append [of "\<lambda>a b. js_ge (snd a) (snd b)" "take k ?srt" "drop k ?srt"]
      by simp
    then have "\<forall>e \<in># mset (drop k ?srt). \<forall>e' \<in> set (take k ?srt). js_ge (snd e') (snd e)"
      by auto
    then have s3: "\<forall>e \<in># mset ?sims - mset ?r. \<forall>e' \<in> set ?r. js_ge (snd e') (snd e)"
      by (simp only: rest r [symmetric])
    from s1 s2 s3 show ?thesis
      by blast
  qed
  from len sub names ord show ?thesis
    by blast
qed

text \<open>
  The amended C5 on two indexes: on the corpus two of three entries come back, in
  non-increasing order, and those of similarity 1 are a prefix of the similarity-1 entries
  in the order of the embeddings mapping; on the index with a zero vector, where one
  similarity is \<^verbatim>\<open>NaN\<close>, both entries come back for \<open>k = 5\<close>.
\<close>

theorem queryFaissIndex_topK_witness:
  "mset (keepOrder [(''admit_rate'', None), (''unitid'', Some (1 :: real))]) =
     mset [(''admit_rate'', None), (''unitid'', Some 1)] \<and>
   length (queryFaissIndex corpusCosine keepOrder zeroVectorGraph [1, 0] 5) = 2 \<and>
   None \<notin> snd ` set (similarities corpusCosine corpusGraph [1, 0]) \<and>
   length (queryFaissIndex corpusCosine keepOrder corpusGraph [1, 0] 2) = 2 \<and>
   sorted_wrt (\<lambda>a b. js_ge (snd a) (snd b))
     (queryFaissIndex corpusCosine keepOrder corpusGraph [1, 0] 2) \<and>
   prefix (filter (\<lambda>e. snd e = Some 1)
             (queryFaissIndex corpusCosine keepOrder corpusGraph [1, 0] 2))
     [(''admit_rate'', Some 1), (''unitid'', Some 1)]"
proof -
  have perm: "mset (keepOrder xs) = mset xs" for xs :: "(string \<times> real option) list"
    by (simp add: keepOrder_def)
  have nn: "None \<notin> snd ` set (similarities corpusCosine corpusGraph [1, 0])"
    by (simp add: corpus_similarities)
  from queryFaissIndex_topK [of keepOrder corpusCosine zeroVectorGraph "[1, 0]" 5, OF perm]
  have n1: "length (queryFaissIndex corpusCosine keepOrder zeroVectorGraph [1, 0] 5) = 2"
    by (simp add: zeroVectorGraph_def)
  from queryFaissIndex_topK [of keepOrder corpusCosine corpusGraph "[1, 0]" 2, OF perm] nn
  have c: "length (queryFaissIndex corpusCosine keepOrder corpusGraph [1, 0] 2)
             = min 2 (length (nodeEmbeddings corpusGraph))"
    "sorted_wrt (\<lambda>a b. js_ge (snd a) (snd b))
       (queryFaissIndex corpusCosine keepOrder corpusGraph [1, 0] 2)"
    "\<forall>s. prefix (filter (\<lambda>e. snd e = s)
                   (queryFaissIndex corpusCosine keepOrder corpusGraph [1, 0] 2))
            (filter (\<lambda>e. snd e = s) (similarities corpusCosine corpusGraph [1, 0]))"
    by blast+
  from c(3) have p: "prefix (filter (\<lambda>e. snd e = Some 1)
                      (queryFaissIndex corpusCosine keepOrder corpusGraph [1, 0] 2))
                [(''admit_rate'', Some 1), (''unitid'', Some 1)]"
    by (drule_tac x = "Some 1" in spec) (simp add: corpus_similarities)
  from perm n1 nn c(1, 2) p show ?thesis
    by (simp add: corpusGraph_def corpusEmbeddings_def)
qed

subsection \<open>Relationships of a node\<close>

text \<open>
  C9. \<^verbatim>\<open>fetchRelationships\<close> is a function of the node name alone: it reads no state and
  makes no call. For \<^verbatim>\<open>parent_ed_id\<close> it yields the two universal relationships,
  \<^verbatim>\<open>EXISTS_IN\<close> to \<^verbatim>\<open>directory\<close> and \<^verbatim>\<open>PROVIDED_BY\<close> to \<^verbatim>\<open>ipeds\<close>, and then
  \<^verbatim>\<open>IDENTIFIES\<close> to \<^verbatim>\<open>parent_ed\<close>.
\<close>

theorem fetchRelationships_parent_ed_id:
  "fetchRelationships ''parent_ed_id'' =
     [\<lparr>rel_type = ''EXISTS_IN'', target = ''directory''\<rparr>,
      \<lparr>rel_type = ''PROVIDED_BY'', target = ''ipeds''\<rparr>,
      \<lparr>rel_type = ''IDENTIFIES'', target = ''parent_ed''\<rparr>]"
  by (simp add: fetchRelationships_def)

section \<open>Properties of the submitted turn\<close>

lemma appendChunk_length [simp]: "length (appendChunk bid chunk s) = length s"
  by (simp add: appendChunk_def)

lemma appendChunk_nth:
  "i < length s \<Longrightarrow>
   appendChunk bid chunk s ! i =
     (if msg_id (s ! i) = bid then (s ! i)\<lparr>msg_content := msg_content (s ! i) @ chunk\<rparr>
      else s ! i)"
  by (simp add: appendChunk_def)

lemma markDelivered_nth:
  "i < length s \<Longrightarrow>
   markDelivered uid s ! i =
     (if msg_id (s ! i) = uid then (s ! i)\<lparr>msg_status := Delivered\<rparr> else s ! i)"
  by (simp add: markDelivered_def)

text \<open>While chunks arrive, no message gains or loses a knowledge-graph annotation.\<close>

lemma consume_snapshots:
  "s' \<in> set (consume bid chunks s) \<Longrightarrow> i < length s \<Longrightarrow>
   length s' = length s \<and> knowledgeGraph (s' ! i) = knowledgeGraph (s ! i)"
proof (induction chunks arbitrary: s)
  case Nil
  then show ?case by simp
next
  case (Cons chunk chunks)
  from Cons.prems(1) consider "s' = appendChunk bid chunk s"
    | "s' \<in> set (consume bid chunks (appendChunk bid chunk s))"
    by auto
  then show ?case
  proof cases
    case 1
    with Cons.prems(2) show ?thesis
      by (simp add: appendChunk_nth)
  next
    case 2
    from Cons.IH [OF 2] Cons.prems(2) show ?thesis
      by (simp add: appendChunk_nth)
  qed
qed

lemma consume_last:
  "i < length s \<Longrightarrow> msg_id (s ! i) = bid \<Longrightarrow>
   length (last (s # consume bid chunks s)) = length s \<and>
   last (s # consume bid chunks s) ! i
     = (s ! i)\<lparr>msg_content := msg_content (s ! i) @ concat chunks\<rparr>"
proof (induction chunks arbitrary: s)
  case Nil
  then show ?case by simp
next
  case (Cons chunk chunks)
  let ?s1 = "appendChunk bid chunk s"
  have "i < length ?s1" "msg_id (?s1 ! i) = bid"
    using Cons.prems by (simp_all add: appendChunk_nth)
  from Cons.IH [OF this] Cons.prems show ?case
    by (simp add: appendChunk_nth)
qed

text \<open>
  C7, against the claim as stated. The stream fails with \<^verbatim>\<open>Request cancelled\<close> while the
  retrieval has succeeded. The last state of the conversation holds the user's turn only:
  the assistant turn is removed, not marked failed.
\<close>

theorem handleSubmit_cancelled_turn_removed:
  "last (handleSubmit [] ''hi'' 5 5 [] (Some (Err ''Error'' ''Request cancelled''))
           (Inr [''admit_rate''])) =
     [\<lparr>msg_id = 5, msg_content = ''hi'', isBot = False, msg_status = Delivered,
       knowledgeGraph = None\<rparr>]"
  by (simp add: handleSubmit_def Let_def markDelivered_def removeMessage_def isCancellation_def)

text \<open>
  C7, amended. The assistant turn is the message at position \<open>length prev + 1\<close>. In every
  state of the conversation before the last one (the turn appended, the user's turn
  delivered, one state per chunk) it carries no knowledge-graph annotation, and these
  states do not depend on how the retrieval settles. If the stream ends normally and the
  retrieval yields \<open>relevantNodes\<close>, the last state has the assistant turn delivered, with
  all chunks as its content and \<open>relevantNodes\<close> attached. If the stream fails, the
  retrieval's outcome has no effect at all, and the assistant turn is marked failed,
  except when the failure is an \<^verbatim>\<open>Error\<close> with message \<^verbatim>\<open>Request cancelled\<close>: then
  the assistant turn is removed from the conversation.
\<close>

theorem handleSubmit_annotation_after_stream:
  "(\<forall>s \<in> set (butlast (handleSubmit prev text t1 t2 chunks streamError retrieval)).
      length s = length prev + 2 \<and> knowledgeGraph (s ! (length prev + 1)) = None) \<and>
   butlast (handleSubmit prev text t1 t2 chunks streamError retrieval) =
     butlast (handleSubmit prev text t1 t2 chunks streamError retrieval') \<and>
   (streamError = None \<and> retrieval = Inr relevantNodes \<longrightarrow>
      last (handleSubmit prev text t1 t2 chunks streamError retrieval) ! (length prev + 1) =
        \<lparr>msg_id = t2 + 1, msg_content = concat chunks, isBot = True, msg_status = Delivered,
          knowledgeGraph = Some relevantNodes\<rparr>) \<and>
   (streamError = Some e \<longrightarrow>
      handleSubmit prev text t1 t2 chunks streamError retrieval =
        handleSubmit prev text t1 t2 chunks streamError retrieval' \<and>
      (if isCancellation e
       then \<forall>m \<in> set (last (handleSubmit prev text t1 t2 chunks streamError retrieval)).
              msg_id m \<noteq> t2 + 1
       else last (handleSubmit prev text t1 t2 chunks streamError retrieval) ! (length prev + 1) =
              \<lparr>msg_id = t2 + 1, msg_content = ''Failed to generate response'', isBot = True,
                msg_status = Failed, knowledgeGraph = None\<rparr>))"
proof -
  define userMessage :: "'a message" where
    "userMessage = \<lparr>msg_id = t1, msg_content = text, isBot = False, msg_status = Sending,
                     knowledgeGraph = None\<rparr>"
  define botMessage :: "'a message" where
    "botMessage = \<lparr>msg_id = t2 + 1, msg_content = [], isBot = True, msg_status = Typing,
                    knowledgeGraph = None\<rparr>"
  define uid where "uid = msg_id userMessage"
  define bid where "bid = msg_id botMessage"
  define appended where "appended = prev @ [userMessage, botMessage]"
  define delivered where "delivered = markDelivered uid appended"
  define streamed where "streamed = consume bid chunks delivered"
  define current where "current = last (delivered # streamed)"
  define final where
    "final = (\<lambda>r. case (case streamError of Some e \<Rightarrow> Inl e | None \<Rightarrow> r) of
                     Inr relevantNodes \<Rightarrow> attachKnowledgeGraph bid relevantNodes current
                   | Inl err \<Rightarrow>
                       if isCancellation err
                       then removeMessage bid current
                       else markFailed bid current)"
  have H: "handleSubmit prev text t1 t2 chunks streamError r
             = [appended, delivered] @ streamed @ [final r]" for r
    unfolding handleSubmit_def Let_def final_def current_def streamed_def delivered_def
      appended_def uid_def bid_def userMessage_def botMessage_def
    by (rule refl)
  have uid: "uid = t1" and bid: "bid = t2 + 1"
    by (simp_all add: uid_def bid_def userMessage_def botMessage_def)
  have bl: "butlast (handleSubmit prev text t1 t2 chunks streamError r)
              = [appended, delivered] @ streamed" for r
    unfolding H by (simp add: butlast_append)
  have la: "last (handleSubmit prev text t1 t2 chunks streamError r) = final r" for r
    unfolding H by simp
  let ?i = "length prev + 1"
  have len_a: "length appended = length prev + 2"
    by (simp add: appended_def)
  have a_i: "appended ! ?i = botMessage"
    by (simp add: appended_def nth_append)
  have len_d: "length delivered = length prev + 2"
    by (simp add: delivered_def markDelivered_def len_a)
  have d_i: "delivered ! ?i
               = (if t2 + 1 = t1 then botMessage\<lparr>msg_status := Delivered\<rparr> else botMessage)"
    using a_i len_a by (simp add: delivered_def markDelivered_nth botMessage_def uid)
  have d_kg: "knowledgeGraph (delivered ! ?i) = None"
    and d_id: "msg_id (delivered ! ?i) = t2 + 1"
    using d_i by (simp_all add: botMessage_def)
  have c1: "\<forall>s \<in> set ([appended, delivered] @ streamed).
              length s = length prev + 2 \<and> knowledgeGraph (s ! ?i) = None"
    using consume_snapshots [of _ "t2 + 1" chunks delivered ?i] len_a len_d a_i d_kg
    by (auto simp: streamed_def botMessage_def bid)
  have cur: "length current = length prev + 2"
    "current ! ?i = (delivered ! ?i)\<lparr>msg_content := concat chunks\<rparr>"
    using consume_last [of ?i delivered "t2 + 1" chunks] len_d d_id d_i
    by (simp_all add: current_def streamed_def botMessage_def bid)
  have c3: "streamError = None \<and> retrieval = Inr relevantNodes \<longrightarrow>
      final retrieval ! ?i =
        \<lparr>msg_id = t2 + 1, msg_content = concat chunks, isBot = True, msg_status = Delivered,
          knowledgeGraph = Some relevantNodes\<rparr>"
    using cur d_i by (auto simp: final_def attachKnowledgeGraph_def botMessage_def bid)
  have c4a: "streamError = Some e \<longrightarrow> final retrieval = final retrieval'"
    by (simp add: final_def)
  have c4b: "streamError = Some e \<longrightarrow>
      (if isCancellation e
       then \<forall>m \<in> set (final retrieval). msg_id m \<noteq> t2 + 1
       else final retrieval ! ?i =
              \<lparr>msg_id = t2 + 1, msg_content = ''Failed to generate response'', isBot = True,
                msg_status = Failed, knowledgeGraph = None\<rparr>)"
    using cur d_i
    by (auto simp: final_def removeMessage_def markFailed_def botMessage_def bid)
  have g1: "\<forall>s \<in> set (butlast (handleSubmit prev text t1 t2 chunks streamError retrieval)).
      length s = length prev + 2 \<and> knowledgeGraph (s ! (length prev + 1)) = None"
    unfolding bl by (rule c1)
  have g2: "butlast (handleSubmit prev text t1 t2 chunks streamError retrieval) =
     butlast (handleSubmit prev text t1 t2 chunks streamError retrieval')"
    unfolding bl by (rule refl)
  have g3: "streamError = None \<and> retrieval = Inr relevantNodes \<longrightarrow>
      last (handleSubmit prev text t1 t2 chunks streamError retrieval) ! (length prev + 1) =
        \<lparr>msg_id = t2 + 1, msg_content = concat chunks, isBot = True, msg_status = Delivered,
          knowledgeGraph = Some relevantNodes\<rparr>"
    unfolding la by (rule c3)
  have g4: "streamError = Some e \<longrightarrow>
      handleSubmit prev text t1 t2 chunks streamError retrieval =
        handleSubmit prev text t1 t2 chunks streamError retrieval' \<and>
      (if isCancellation e
       then \<forall>m \<in> set (last (handleSubmit prev text t1 t2 chunks streamError retrieval)).
              msg_id m \<noteq> t2 + 1
       else last (handleSubmit prev text t1 t2 chunks streamError retrieval) ! (length prev + 1) =
              \<lparr>msg_id = t2 + 1, msg_content = ''Failed to generate response'', isBot = True,
                msg_status = Failed, knowledgeGraph = None\<rparr>)"
    unfolding la using c4a c4b by (simp only: H) blast
  from g1 g2 g3 g4 show ?thesis
    by (intro conjI)
qed

text \<open>
  The amended C7 on two turns: one whose stream delivers two chunks and whose retrieval
  finds \<^verbatim>\<open>admit_rate\<close>, and one whose stream fails after one chunk.
\<close>

theorem handleSubmit_annotation_after_stream_witness:
  "last (handleSubmit [] ''hi'' 5 5 [''a '', ''b ''] None (Inr [''admit_rate''])) ! 1 =
     \<lparr>msg_id = 6, msg_content = ''a b '', isBot = True, msg_status = Delivered,
       knowledgeGraph = Some [''admit_rate'']\<rparr> \<and>
   \<not> isCancellation (Err ''Error'' ''Run failed'') \<and>
   last (handleSubmit [] ''hi'' 5 5 [''a ''] (Some (Err ''Error'' ''Run failed''))
           (Inr [''admit_rate''])) ! 1 =
     \<lparr>msg_id = 6, msg_content = ''Failed to generate response'', isBot = True,
       msg_status = Failed, knowledgeGraph = None\<rparr>"
  using handleSubmit_annotation_after_stream
          [of "[]" "''hi''" 5 5 "[''a '', ''b '']" None "Inr [''admit_rate'']"
              "Inr [''admit_rate'']" "[''admit_rate'']" NonError]
        handleSubmit_annotation_after_stream
          [of "[]" "''hi''" 5 5 "[''a '']" "Some (Err ''Error'' ''Run failed'')"
              "Inr [''admit_rate'']" "Inr [''admit_rate'']" "[''admit_rate'']"
              "Err ''Error'' ''Run failed''"]
  by (simp add: isCancellation_def)

end
